theory Spec2Isabelle
  imports Complex_Main "HOL-Library.Word"
begin

section \<open>Tile decoder: node ids (ImdlParser.ts, extractNodeId)\<close>

text \<open>
  JavaScript strings are sequences of UTF-16 code units; a code unit is a natural number
  here and \<open>js\<close> turns an ASCII literal into one.
\<close>

type_synonym jsstring = "nat list"

definition js :: "string \<Rightarrow> jsstring" where
  "js s = map of_char s"

datatype error = AssertionError | TypeError | RangeError | SyntaxError

text \<open>
  The regular expression \<^verbatim>\<open>/Node_(.*)/\<close> is not anchored: \<^verbatim>\<open>String.match\<close> returns the
  leftmost occurrence of \<^verbatim>\<open>Node_\<close>, and the group takes every following code unit up to
  the first line terminator. The result is the text of the group, or \<open>None\<close> for \<^verbatim>\<open>null\<close>.
\<close>

definition isLineTerminator :: "nat \<Rightarrow> bool" where
  "isLineTerminator c = (c = 10 \<or> c = 13 \<or> c = 8232 \<or> c = 8233)"

fun startsWith :: "jsstring \<Rightarrow> jsstring \<Rightarrow> bool" where
  "startsWith [] s = True"
| "startsWith (p # ps) [] = False"
| "startsWith (p # ps) (c # cs) = (p = c \<and> startsWith ps cs)"

fun nodeIdRegex :: "jsstring \<Rightarrow> jsstring option" where
  "nodeIdRegex [] = None"
| "nodeIdRegex (c # cs) =
     (if startsWith (js ''Node_'') (c # cs)
      then Some (takeWhile (\<lambda>d. \<not> isLineTerminator d) (drop 5 (c # cs)))
      else nodeIdRegex cs)"

text \<open>
  The number that \<^verbatim>\<open>Number.parseInt\<close> returns is a double: \<^verbatim>\<open>NaN\<close>, an integer that a double
  represents, or an infinity. The two zeros are not told apart.
\<close>

datatype jsnumber = NaN | Finite int | PlusInfinity | MinusInfinity

text \<open>
  The double nearest to a natural number, with ties going to the even significand of 53
  bits; \<open>None\<close> when the number rounds beyond the largest double. \<open>bitLength n\<close> is the
  number of binary digits of \<open>n\<close>.
\<close>

fun bitLength :: "nat \<Rightarrow> nat" where
  "bitLength n = (if n = 0 then 0 else Suc (bitLength (n div 2)))"

declare bitLength.simps [simp del]

definition roundToDouble :: "nat \<Rightarrow> nat option" where
  "roundToDouble n =
     (let e = bitLength n - 53;
          q = n div 2 ^ e;
          r = n mod 2 ^ e;
          q' = (if 2 * r > 2 ^ e \<or> (2 * r = 2 ^ e \<and> odd q) then q + 1 else q)
      in if 2 ^ 1024 \<le> q' * 2 ^ e then None else Some (q' * 2 ^ e))"

text \<open>
  \<^verbatim>\<open>Number.parseInt(s, 10)\<close>: leading white space is skipped, one sign is read, then the
  longest run of decimal digits; with no digit the result is \<^verbatim>\<open>NaN\<close>, and otherwise the
  double nearest to the signed value of the digits (an engine may ignore the digits after
  the twentieth significant one; the nearest double of the exact value is taken here).
\<close>

definition isWhiteSpace :: "nat \<Rightarrow> bool" where
  "isWhiteSpace c =
     (c = 9 \<or> c = 11 \<or> c = 12 \<or> c = 32 \<or> c = 160 \<or> c = 5760
      \<or> (8192 \<le> c \<and> c \<le> 8202) \<or> c = 8239 \<or> c = 8287 \<or> c = 12288 \<or> c = 65279
      \<or> isLineTerminator c)"

definition isDigit :: "nat \<Rightarrow> bool" where
  "isDigit c = (48 \<le> c \<and> c \<le> 57)"

definition digitsToNat :: "jsstring \<Rightarrow> nat" where
  "digitsToNat ds = foldl (\<lambda>acc d. 10 * acc + (d - 48)) 0 ds"

definition parseInt10 :: "jsstring \<Rightarrow> jsnumber" where
  "parseInt10 str =
     (let s = dropWhile isWhiteSpace str;
          negative = (case s of [] \<Rightarrow> False | c # r \<Rightarrow> c = 45);
          s' = (case s of [] \<Rightarrow> [] | c # r \<Rightarrow> if c = 43 \<or> c = 45 then r else s);
          ds = takeWhile isDigit s'
      in if ds = [] then NaN
         else (case roundToDouble (digitsToNat ds) of
                 None \<Rightarrow> if negative then MinusInfinity else PlusInfinity
               | Some v \<Rightarrow> Finite (if negative then - int v else int v)))"

text \<open>
  \<^verbatim>\<open>assert\<close> comes from the core-bentley package, which is not among the sources: whether
  a failed assertion throws (development builds) or is skipped is the parameter
  \<open>assertionsEnabled\<close>.
\<close>

definition assert :: "bool \<Rightarrow> bool \<Rightarrow> error + unit" where
  "assert assertionsEnabled cond = (if assertionsEnabled \<and> \<not> cond then Inl AssertionError else Inr ())"

definition extractNodeId :: "bool \<Rightarrow> jsstring \<Rightarrow> error + jsnumber" where
  "extractNodeId assertionsEnabled nodeName =
     (let match = nodeIdRegex nodeName in
      case assert assertionsEnabled (match \<noteq> None) of
        Inl e \<Rightarrow> Inl e
      | Inr _ \<Rightarrow>
         (case match of
            None \<Rightarrow> Inr (Finite 0)
          | Some g \<Rightarrow>
             (let nodeId = parseInt10 g in
              case assert assertionsEnabled (nodeId \<noteq> NaN) of
                Inl e \<Rightarrow> Inl e
              | Inr _ \<Rightarrow> Inr (if nodeId = NaN then Finite 0 else nodeId))))"

text \<open>The value of a decimal numeral, most significant digit first, as a sum of powers of ten.\<close>

definition decimalValue :: "jsstring \<Rightarrow> nat" where
  "decimalValue ds = (\<Sum>i < length ds. (ds ! i - 48) * 10 ^ (length ds - 1 - i))"

section \<open>Offset engine: joints (PolygonOffsetContext.ts)\<close>

text \<open>
  JavaScript numbers are modelled as real numbers: rounding, infinities and \<^verbatim>\<open>NaN\<close> are not
  represented. Points and vectors are coordinate triples.
\<close>

type_synonym Point3d = "real \<times> real \<times> real"
type_synonym Vector3d = "real \<times> real \<times> real"

fun createStartEnd :: "Point3d \<Rightarrow> Point3d \<Rightarrow> Vector3d" where
  "createStartEnd (ax, ay, az) (bx, by, bz) = (bx - ax, by - ay, bz - az)"

fun rotate90CCWXY :: "Vector3d \<Rightarrow> Vector3d" where
  "rotate90CCWXY (vx, vy, vz) = (- vy, vx, vz)"

fun plusScaled :: "Point3d \<Rightarrow> Vector3d \<Rightarrow> real \<Rightarrow> Point3d" where
  "plusScaled (px, py, pz) (vx, vy, vz) s = (px + vx * s, py + vy * s, pz + vz * s)"

fun interpolate :: "Point3d \<Rightarrow> real \<Rightarrow> Point3d \<Rightarrow> Point3d" where
  "interpolate (ax, ay, az) f (bx, by, bz) = (ax + f * (bx - ax), ay + f * (by - ay), az + f * (bz - az))"

fun distance :: "Point3d \<Rightarrow> Point3d \<Rightarrow> real" where
  "distance (ax, ay, az) (bx, by, bz) = sqrt ((bx - ax)\<^sup>2 + (by - ay)\<^sup>2 + (bz - az)\<^sup>2)"

datatype JointMode = Unknown | Cap | Extend | Trim | JustGeometry | Gap

datatype Angle = Angle (radians: real) (degrees: real)

datatype Ray3d = Ray3d (origin: Point3d) (direction: Vector3d)

datatype Arc3d = Arc3d (center: Point3d) (vector0: Vector3d) (vector90: Vector3d)
  (sweepStartRadians: real) (sweepEndRadians: real)

datatype CurveGeom =
    LineSegment3d Point3d Point3d
  | LineString3d "Point3d list"
  | ArcCurve Arc3d
  | OtherCurve nat

text \<open>
  A curve primitive with the two properties \<^verbatim>\<open>baseCurveStart\<close> and \<^verbatim>\<open>baseCurveEnd\<close> that
  \<^verbatim>\<open>applyBasePoints\<close> attaches to it.
\<close>

datatype CurvePrimitive = CurvePrimitive (geom: CurveGeom)
  (baseCurveStart: "Point3d option") (baseCurveEnd: "Point3d option")

datatype CurveCurveApproachType = Intersection | PerpendicularChord | CoincidentGeometry | ParallelGeometry

datatype CurveLocationDetail = CurveLocationDetail (fraction: real) (point: Point3d)

datatype CurveLocationDetailPair = CurveLocationDetailPair
  (approachType: CurveCurveApproachType) (detailA: CurveLocationDetail) (detailB: CurveLocationDetail)

text \<open>
  The operations of the geometry library that the joint code calls and whose sources
  lie in other modules of the geometry package are parameters, collected in one record: the
  tolerance tests, the ray/ray and curve/curve intersections, the signed angle between two
  vectors, evaluation of curves other than line segments, stroking, partial clones and
  vector normalisation.
\<close>

record GeomLib =
  pointAlmostEqual :: "Point3d \<Rightarrow> Point3d \<Rightarrow> bool"
  isSameCoordinate :: "real \<Rightarrow> real \<Rightarrow> bool"
  closestApproachRay3dRay3d :: "Ray3d \<Rightarrow> Ray3d \<Rightarrow> CurveLocationDetailPair"
  angleToXY :: "Vector3d \<Rightarrow> Vector3d \<Rightarrow> Angle"
  intersectionXYPairs :: "CurvePrimitive \<Rightarrow> CurvePrimitive \<Rightarrow> CurveLocationDetailPair list"
  curvePointAndDerivative :: "CurveGeom \<Rightarrow> real \<Rightarrow> Ray3d"
  fractionAndRadialFractionToPoint :: "Arc3d \<Rightarrow> real \<Rightarrow> real \<Rightarrow> Point3d"
  emitStrokes :: "CurvePrimitive \<Rightarrow> Point3d list \<Rightarrow> Point3d list"
  clonePartialCurve :: "CurvePrimitive \<Rightarrow> real \<Rightarrow> real \<Rightarrow> CurvePrimitive option"
  normalize :: "Vector3d \<Rightarrow> Vector3d option"

text \<open>
  Modelled from the spec: a line segment is parametrised by the fraction along it, 0 at
  its start and 1 at its end, and its derivative is the vector from start to end. Other
  curve kinds are evaluated by the library.
\<close>

definition fractionToPointAndDerivative :: "GeomLib \<Rightarrow> CurvePrimitive \<Rightarrow> real \<Rightarrow> Ray3d" where
  "fractionToPointAndDerivative L c f =
     (case geom c of
        LineSegment3d a b \<Rightarrow> Ray3d (interpolate a f b) (createStartEnd a b)
      | g \<Rightarrow> curvePointAndDerivative L g f)"

definition fractionToPoint :: "GeomLib \<Rightarrow> CurvePrimitive \<Rightarrow> real \<Rightarrow> Point3d" where
  "fractionToPoint L c f = origin (fractionToPointAndDerivative L c f)"

definition startPoint :: "GeomLib \<Rightarrow> CurvePrimitive \<Rightarrow> Point3d" where
  "startPoint L c = fractionToPoint L c 0"

definition endPoint :: "GeomLib \<Rightarrow> CurvePrimitive \<Rightarrow> Point3d" where
  "endPoint L c = fractionToPoint L c 1"

definition isLineSegment3d :: "CurvePrimitive \<Rightarrow> bool" where
  "isLineSegment3d c = (case geom c of LineSegment3d a b \<Rightarrow> True | _ \<Rightarrow> False)"

definition LineSegment3d_create :: "Point3d \<Rightarrow> Point3d \<Rightarrow> CurvePrimitive" where
  "LineSegment3d_create a b = CurvePrimitive (LineSegment3d a b) None None"

definition LineString3d_create :: "Point3d list \<Rightarrow> CurvePrimitive" where
  "LineString3d_create ps = CurvePrimitive (LineString3d ps) None None"

record JointOptions =
  minArcDegrees :: real
  maxChamferTurnDegrees :: real
  allowSharpestCorners :: bool
  leftOffsetDistance :: real
  preserveEllipticalArcs :: bool

text \<open>
  Modelled from the spec: \<^verbatim>\<open>Geometry.clamp\<close> is not among the sources; \<open>clamp(value, min, max)\<close>
  limits the value to at most \<open>max\<close> and then to at least \<open>min\<close>.
\<close>

definition Geometry_clamp :: "real \<Rightarrow> real \<Rightarrow> real \<Rightarrow> real" where
  "Geometry_clamp v lo hi = max lo (min hi v)"

definition needArc :: "JointOptions \<Rightarrow> Angle \<Rightarrow> bool" where
  "needArc options theta = (\<bar>degrees theta\<bar> \<ge> minArcDegrees options)"

definition stepDegrees :: "JointOptions \<Rightarrow> real" where
  "stepDegrees options =
     (let minStepDegreesClamp = 10;
          maxStepDegreesClamp = (if allowSharpestCorners options then maxChamferTurnDegrees options else 120)
      in Geometry_clamp (maxChamferTurnDegrees options) minStepDegreesClamp maxStepDegreesClamp)"

definition numChamferPoints :: "JointOptions \<Rightarrow> Angle \<Rightarrow> int" where
  "numChamferPoints options theta =
     (let degs = \<bar>degrees theta\<bar>;
          step = stepDegrees options
      in if degs \<le> step then 1 else \<lceil>degs / step\<rceil>)"

record Joint =
  flexure :: JointMode
  curve0 :: "CurvePrimitive option"
  fraction0 :: "real option"
  curve1 :: "CurvePrimitive option"
  fraction1 :: "real option"
  jointCurve :: "CurvePrimitive option"
  swingPoint :: "Point3d option"
  nextJoint :: "nat option"
  previousJoint :: "nat option"

definition newJoint :: "CurvePrimitive option \<Rightarrow> CurvePrimitive option \<Rightarrow> Point3d option \<Rightarrow> Joint" where
  "newJoint c0 c1 sp =
     \<lparr>flexure = Unknown, curve0 = c0, fraction0 = None, curve1 = c1, fraction1 = None,
      jointCurve = None, swingPoint = sp, nextJoint = None, previousJoint = None\<rparr>"

definition constructArc :: "GeomLib \<Rightarrow> Ray3d \<Rightarrow> Point3d option \<Rightarrow> Ray3d \<Rightarrow> Arc3d option" where
  "constructArc L ray0 cen ray1 =
     (case cen of
        None \<Rightarrow> None
      | Some c \<Rightarrow>
          if isSameCoordinate L (distance (origin ray0) c) (distance (origin ray1) c)
          then (let angle = angleToXY L (direction ray0) (direction ray1);
                    v0 = createStartEnd c (origin ray0);
                    v90 = rotate90CCWXY v0
                in Some (Arc3d c v0 v90 0 (radians angle)))
          else None)"

text \<open>The fallback at the end of \<^verbatim>\<open>annotateExtension\<close>: a straight segment across the gap.\<close>

definition fillGap :: "GeomLib \<Rightarrow> CurvePrimitive \<Rightarrow> CurvePrimitive \<Rightarrow> Joint \<Rightarrow> Joint" where
  "fillGap L c0 c1 j =
     j\<lparr>flexure := Gap,
       jointCurve := Some (LineSegment3d_create (fractionToPoint L c0 1) (fractionToPoint L c1 0)),
       fraction0 := Some 1, fraction1 := Some 0\<rparr>"

definition chamferPoints :: "GeomLib \<Rightarrow> Arc3d \<Rightarrow> Angle \<Rightarrow> int \<Rightarrow> Point3d list" where
  "chamferPoints L arc theta n =
     (let radians0 = radians theta;
          numHalfStep = 2 * real_of_int n;
          halfStepRadians = radians0 / numHalfStep;
          radialFraction = 1 / cos halfStepRadians
      in map (\<lambda>i. fractionAndRadialFractionToPoint L arc ((1 + 2 * real i) / numHalfStep) radialFraction)
           [0 ..< nat n])"

definition annotateExtension :: "GeomLib \<Rightarrow> JointOptions \<Rightarrow> Joint \<Rightarrow> Joint" where
  "annotateExtension L options j =
     (case (curve0 j, curve1 j) of
        (Some c0, Some c1) \<Rightarrow>
          (let ray0 = fractionToPointAndDerivative L c0 1;
               ray1 = fractionToPointAndDerivative L c1 0;
               intersection = closestApproachRay3dRay3d L ray0 ray1
           in if approachType intersection = Intersection
                 \<and> fraction (detailA intersection) \<ge> 0 \<and> fraction (detailB intersection) \<le> 0
              then
                (let j1 = j\<lparr>fraction0 := Some 1, fraction1 := Some 0, flexure := Extend\<rparr>;
                     theta = angleToXY L (direction ray0) (direction ray1);
                     arc = constructArc L ray0 (baseCurveEnd c0) ray1
                 in if needArc options theta \<and> arc \<noteq> None
                    then j1\<lparr>jointCurve := Some (CurvePrimitive (ArcCurve (the arc)) None None)\<rparr>
                    else
                      (let n = numChamferPoints options theta
                       in if n \<le> 1
                          then j1\<lparr>jointCurve :=
                                 Some (LineString3d_create
                                   [origin ray0, point (detailA intersection), origin ray1])\<rparr>
                          else (case arc of
                                  Some a \<Rightarrow>
                                    j1\<lparr>jointCurve :=
                                       Some (LineString3d_create
                                         (origin ray0 # chamferPoints L a theta n @ [origin ray1]))\<rparr>
                                | None \<Rightarrow> fillGap L c0 c1 j1)))
              else fillGap L c0 c1 j)
      | _ \<Rightarrow> j)"

text \<open>\<^verbatim>\<open>Number.MAX_VALUE\<close>, the largest finite double.\<close>

definition Number_MAX_VALUE :: real where
  "Number_MAX_VALUE = 2 ^ 1024 - 2 ^ 971"

fun selectLoop :: "real \<Rightarrow> real \<Rightarrow> CurveLocationDetailPair list \<Rightarrow> nat \<Rightarrow> int \<Rightarrow> real \<Rightarrow> int" where
  "selectLoop fractionA fractionB [] i index aMin = index"
| "selectLoop fractionA fractionB (p # ps) i index aMin =
     (let a = \<bar>fraction (detailA p) - fractionA\<bar> + \<bar>fraction (detailB p) - fractionB\<bar>
      in if a < aMin then selectLoop fractionA fractionB ps (Suc i) (int i) a
         else selectLoop fractionA fractionB ps (Suc i) index aMin)"

definition selectIntersectionIndexByFraction ::
  "real \<Rightarrow> real \<Rightarrow> CurveLocationDetailPair list \<Rightarrow> int" where
  "selectIntersectionIndexByFraction fractionA fractionB intersections =
     selectLoop fractionA fractionB intersections 0 (- 1) Number_MAX_VALUE"

definition annotateJointMode :: "GeomLib \<Rightarrow> JointOptions \<Rightarrow> Joint \<Rightarrow> Joint" where
  "annotateJointMode L options j =
     (case (curve0 j, curve1 j) of
        (None, Some c1) \<Rightarrow> j\<lparr>flexure := Cap, fraction1 := Some 0\<rparr>
      | (Some c0, None) \<Rightarrow> j\<lparr>flexure := Cap, fraction0 := Some 1\<rparr>
      | (Some c0, Some c1) \<Rightarrow>
          if pointAlmostEqual L (endPoint L c0) (startPoint L c1)
          then j\<lparr>fraction0 := Some 1, fraction1 := Some 0, flexure := Trim\<rparr>
          else if isLineSegment3d c0 \<and> isLineSegment3d c1
          then
            (let ray0 = fractionToPointAndDerivative L c0 0;
                 ray1 = fractionToPointAndDerivative L c1 0;
                 intersection = closestApproachRay3dRay3d L ray0 ray1
             in if approachType intersection = Intersection
                then
                  (let f0 = fraction (detailA intersection);
                       f1 = fraction (detailB intersection);
                       j1 = j\<lparr>fraction0 := Some f0, fraction1 := Some f1\<rparr>
                   in if f0 \<ge> 1 \<and> f1 \<le> 0 then annotateExtension L options j1
                      else if f0 < 1 \<and> f1 > 0 then j1\<lparr>flexure := Trim\<rparr>
                      else if f0 > 1 \<and> f1 > 1 then
                        j1\<lparr>flexure := Gap,
                           jointCurve := Some (LineSegment3d_create (fractionToPoint L c0 1) (fractionToPoint L c1 0)),
                           fraction0 := Some 1, fraction1 := Some 0\<rparr>
                      else j1)
                else j)
          else
            (let intersections = intersectionXYPairs L c0 c1;
                 intersectionIndex = selectIntersectionIndexByFraction 1 0 intersections
             in if intersectionIndex \<ge> 0
                then j\<lparr>flexure := Trim,
                       fraction0 := Some (fraction (detailA (intersections ! nat intersectionIndex))),
                       fraction1 := Some (fraction (detailB (intersections ! nat intersectionIndex)))\<rparr>
                else annotateExtension L options j)
      | (None, None) \<Rightarrow> j)"

subsection \<open>A planar instance of the geometry library\<close>

text \<open>
  Modelled from the spec: the geometry library restricted to line segments in the xy-plane,
  with the fixed absolute tolerance \<open>10\<^sup>-\<^sup>6\<close> in every comparison. It instantiates the
  library parameter in the examples. Stroking a line segment appends its start point and
  its end point to the destination, and stroking a line string appends its points; no point
  is compared with the points already there.
\<close>

definition smallMetricDistance :: real where
  "smallMetricDistance = 1 / 10 ^ 6"

definition sameCoordinate :: "real \<Rightarrow> real \<Rightarrow> bool" where
  "sameCoordinate a b = (\<bar>a - b\<bar> \<le> smallMetricDistance)"

fun almostEqualPoint :: "Point3d \<Rightarrow> Point3d \<Rightarrow> bool" where
  "almostEqualPoint (ax, ay, az) (bx, by, bz) =
     (sameCoordinate ax bx \<and> sameCoordinate ay by \<and> sameCoordinate az bz)"

fun rayRayXY :: "Ray3d \<Rightarrow> Ray3d \<Rightarrow> CurveLocationDetailPair" where
  "rayRayXY (Ray3d (ax, ay, az) (ux, uy, uz)) (Ray3d (bx, by, bz) (vx, vy, vz)) =
     (let cross = ux * vy - uy * vx
      in if cross = 0
         then CurveLocationDetailPair ParallelGeometry
                (CurveLocationDetail 0 (ax, ay, az)) (CurveLocationDetail 0 (bx, by, bz))
         else (let s = ((bx - ax) * vy - (by - ay) * vx) / cross;
                   t = ((bx - ax) * uy - (by - ay) * ux) / cross
               in CurveLocationDetailPair Intersection
                    (CurveLocationDetail s (ax + s * ux, ay + s * uy, az + s * uz))
                    (CurveLocationDetail t (bx + t * vx, by + t * vy, bz + t * vz))))"

fun signedAngleXY :: "Vector3d \<Rightarrow> Vector3d \<Rightarrow> Angle" where
  "signedAngleXY (ux, uy, uz) (vx, vy, vz) =
     (let cross = ux * vy - uy * vx;
          dot = ux * vx + uy * vy;
          r = (if cross = 0 then (if dot \<ge> 0 then 0 else pi)
               else if dot = 0 then (if cross > 0 then pi / 2 else - pi / 2)
               else if dot > 0 then arctan (cross / dot)
               else if cross > 0 then arctan (cross / dot) + pi
               else arctan (cross / dot) - pi)
      in Angle r (r * 180 / pi))"

definition strokeSegments :: "CurvePrimitive \<Rightarrow> Point3d list \<Rightarrow> Point3d list" where
  "strokeSegments c dest =
     (case geom c of
        LineSegment3d a b \<Rightarrow> dest @ [a, b]
      | LineString3d ps \<Rightarrow> dest @ ps
      | _ \<Rightarrow> dest)"

definition partialSegment :: "CurvePrimitive \<Rightarrow> real \<Rightarrow> real \<Rightarrow> CurvePrimitive option" where
  "partialSegment c fA fB =
     (case geom c of
        LineSegment3d a b \<Rightarrow> Some (LineSegment3d_create (interpolate a fA b) (interpolate a fB b))
      | _ \<Rightarrow> None)"

fun normalizeVector :: "Vector3d \<Rightarrow> Vector3d option" where
  "normalizeVector (vx, vy, vz) =
     (let m = sqrt (vx\<^sup>2 + vy\<^sup>2 + vz\<^sup>2)
      in if m \<le> smallMetricDistance then None else Some (vx / m, vy / m, vz / m))"

fun arcPoint :: "Arc3d \<Rightarrow> real \<Rightarrow> real \<Rightarrow> Point3d" where
  "arcPoint (Arc3d c v0 v90 s e) f rf =
     plusScaled (plusScaled c v0 (rf * cos (s + f * (e - s)))) v90 (rf * sin (s + f * (e - s)))"

definition planarLib :: GeomLib where
  "planarLib =
     \<lparr>pointAlmostEqual = almostEqualPoint,
      isSameCoordinate = sameCoordinate,
      closestApproachRay3dRay3d = rayRayXY,
      angleToXY = signedAngleXY,
      intersectionXYPairs = (\<lambda>a b. []),
      curvePointAndDerivative = (\<lambda>g f. Ray3d (0, 0, 0) (0, 0, 0)),
      fractionAndRadialFractionToPoint = arcPoint,
      emitStrokes = strokeSegments,
      clonePartialCurve = partialSegment,
      normalize = normalizeVector\<rparr>"

definition defaultOptions :: "real \<Rightarrow> JointOptions" where
  "defaultOptions d =
     \<lparr>minArcDegrees = 180, maxChamferTurnDegrees = 90, allowSharpestCorners = False,
      leftOffsetDistance = d, preserveEllipticalArcs = False\<rparr>"

definition seg :: "Point3d \<Rightarrow> Point3d \<Rightarrow> Point3d \<Rightarrow> Point3d \<Rightarrow> CurvePrimitive" where
  "seg a b ba bb = CurvePrimitive (LineSegment3d a b) (Some ba) (Some bb)"

definition cornerJoint :: Joint where
  "cornerJoint = newJoint (Some (seg (0, - 1, 0) (2, - 1, 0) (0, 0, 0) (2, 0, 0)))
                          (Some (seg (5, 4, 0) (5, 6, 0) (4, 4, 0) (4, 6, 0))) None"

definition trimJoint :: Joint where
  "trimJoint = newJoint (Some (seg (0, 2, 0) (1, 2, 0) (0, 0, 0) (1, 0, 0)))
                        (Some (seg (- 1, 0, 0) (- 1, 1, 0) (1, 0, 0) (1, 1, 0))) (Some (1, 0, 0))"

section \<open>Offset engine: the joint chain (PolygonOffsetContext.ts)\<close>

text \<open>
  Joints are objects linked in both directions and updated in place, so they live in a
  store: a list of joints addressed by position. A reference to a joint is its index, a
  new joint is appended, and \<^verbatim>\<open>undefined\<close> is \<open>None\<close>. Curves are never modified after
  their creation and are plain values.
\<close>

type_synonym Heap = "Joint list"

definition alloc :: "Heap \<Rightarrow> Joint \<Rightarrow> Heap \<times> nat" where
  "alloc h j = (h @ [j], length h)"

definition link :: "Heap \<Rightarrow> nat \<Rightarrow> nat option \<Rightarrow> Heap" where
  "link h joint0 joint1 =
     (let h1 = h[joint0 := (h ! joint0)\<lparr>nextJoint := joint1\<rparr>]
      in case joint1 of
           None \<Rightarrow> h1
         | Some j1 \<Rightarrow>
             (let h2 = h1[j1 := (h1 ! j1)\<lparr>previousJoint := Some joint0\<rparr>]
              in if curve1 (h2 ! joint0) \<noteq> None \<and> curve0 (h2 ! j1) = None
                 then h2[j1 := (h2 ! j1)\<lparr>curve0 := curve1 (h2 ! joint0)\<rparr>]
                 else if curve1 (h2 ! joint0) = None \<and> curve0 (h2 ! j1) \<noteq> None
                 then h2[joint0 := (h2 ! joint0)\<lparr>curve1 := curve0 (h2 ! j1)\<rparr>]
                 else h2))"

definition nextJointFraction0 :: "Heap \<Rightarrow> nat \<Rightarrow> real \<Rightarrow> real" where
  "nextJointFraction0 h j defaultValue =
     (case nextJoint (h ! j) of
        None \<Rightarrow> defaultValue
      | Some n \<Rightarrow> (case fraction0 (h ! n) of None \<Rightarrow> defaultValue | Some f \<Rightarrow> f))"

definition annotateAt :: "GeomLib \<Rightarrow> JointOptions \<Rightarrow> Heap \<Rightarrow> nat \<Rightarrow> Heap" where
  "annotateAt L options h j = h[j := annotateJointMode L options (h ! j)]"

text \<open>
  \<^verbatim>\<open>visitJointsOnChain\<close>: the callback works on a state that holds the store; the walk ends
  at the end of the chain, back at the start, when the callback says so, or after
  \<open>maxTest + 5\<close> joints.
\<close>

function visitLoop ::
  "(nat \<Rightarrow> 's \<Rightarrow> bool \<times> 's) \<Rightarrow> ('s \<Rightarrow> Heap) \<Rightarrow> nat \<Rightarrow> nat \<Rightarrow> nat option \<Rightarrow> nat \<Rightarrow> 's \<Rightarrow> bool \<times> 's" where
  "visitLoop callback heapOf start maxTest joint numTest st =
     (case joint of
        None \<Rightarrow> (True, st)
      | Some j \<Rightarrow>
          if numTest \<ge> maxTest + 5 then (True, st)
          else (case callback j st of
                  (ok, st') \<Rightarrow>
                    if \<not> ok then (False, st')
                    else (let joint' = nextJoint (heapOf st' ! j)
                          in if joint' = Some start then (True, st')
                             else visitLoop callback heapOf start maxTest joint' (numTest + 1) st')))"
  by pat_completeness auto
termination
  by (relation "measure (\<lambda>(callback, heapOf, start, maxTest, joint, numTest, st). maxTest + 5 - numTest)") auto

definition visitJointsOnChain ::
  "nat \<Rightarrow> (nat \<Rightarrow> 's \<Rightarrow> bool \<times> 's) \<Rightarrow> ('s \<Rightarrow> Heap) \<Rightarrow> nat \<Rightarrow> 's \<Rightarrow> bool \<times> 's" where
  "visitJointsOnChain start callback heapOf maxTest st =
     visitLoop callback heapOf start maxTest (Some start) 0 st"

definition annotateChain :: "GeomLib \<Rightarrow> nat \<Rightarrow> JointOptions \<Rightarrow> nat \<Rightarrow> Heap \<Rightarrow> Heap" where
  "annotateChain L start options maxTest h =
     snd (visitJointsOnChain start (\<lambda>j h'. (True, annotateAt L options h' j)) id maxTest h)"

text \<open>The destination line string of \<^verbatim>\<open>collectStrokesFromChain\<close> is its list of points.\<close>

definition addStrokes :: "GeomLib \<Rightarrow> Point3d list \<Rightarrow> CurvePrimitive option \<Rightarrow> Point3d list" where
  "addStrokes L destination curve =
     (case curve of None \<Rightarrow> destination | Some c \<Rightarrow> emitStrokes L c destination)"

definition addPoint :: "GeomLib \<Rightarrow> Point3d list \<Rightarrow> Point3d \<Rightarrow> Point3d list" where
  "addPoint L destination p =
     (if length destination > 0
      then (if \<not> pointAlmostEqual L (last destination) p then destination @ [p] else destination)
      else destination)"

definition collectJoint :: "GeomLib \<Rightarrow> Heap \<Rightarrow> nat \<Rightarrow> Point3d list \<Rightarrow> Point3d list" where
  "collectJoint L h j destination =
     (let joint = h ! j;
          dest1 = addStrokes L destination (jointCurve joint)
      in case (curve1 joint, fraction1 joint) of
           (Some c1, Some fA) \<Rightarrow>
             (let fB = nextJointFraction0 h j 1;
                  curve1' = (if fA = 0 \<and> fB = 1 then Some c1
                             else if fA < fB then clonePartialCurve L c1 fA fB
                             else None);
                  dest2 = (case curve1' of
                             Some c \<Rightarrow> if jointCurve joint = None then addPoint L dest1 (startPoint L c)
                                       else dest1
                           | None \<Rightarrow> dest1)
              in addStrokes L dest2 curve1')
         | _ \<Rightarrow> dest1)"

definition collectStrokesFromChain :: "GeomLib \<Rightarrow> Heap \<Rightarrow> nat \<Rightarrow> Point3d list \<Rightarrow> nat \<Rightarrow> Point3d list" where
  "collectStrokesFromChain L h start destination maxTest =
     fst (snd (snd (visitJointsOnChain start
       (\<lambda>j (h', dest, numOut). (numOut < int maxTest, (h', collectJoint L h' j dest, numOut + 1)))
       fst maxTest (h, destination, - 2 * int maxTest))))"

text \<open>
  \<^verbatim>\<open>removeDegeneratePrimitives\<close>. \<open>spliceJoint\<close> is what both removal branches share: a new
  joint between the fragment before joint \<open>a\<close> and the fragment after joint \<open>z\<close>, linked in
  place of the joints from \<open>a\<close> to \<open>z\<close>, and the annotation of the three joints affected.
  The result of a call is the store, the new start, the number of removals counted and
  the final value of the loop counter \<open>numTest\<close>.
\<close>

definition spliceJoint :: "GeomLib \<Rightarrow> JointOptions \<Rightarrow> Heap \<Rightarrow> nat \<Rightarrow> nat \<Rightarrow> Heap \<times> nat" where
  "spliceJoint L options h a z =
     (let (h1, n) = alloc h (newJoint (curve0 (h ! a)) (curve1 (h ! z)) None);
          h2 = link h1 (the (previousJoint (h1 ! a))) (Some n);
          h3 = link h2 n (nextJoint (h2 ! z));
          h4 = annotateAt L options h3 n;
          h5 = annotateAt L options h4 (the (previousJoint (h4 ! n)));
          h6 = (case nextJoint (h5 ! n) of None \<Rightarrow> h5 | Some x \<Rightarrow> annotateAt L options h5 x)
      in (h6, n))"

definition eliminateF :: "Heap \<Rightarrow> nat \<Rightarrow> nat \<Rightarrow> bool" where
  "eliminateF h a b =
     (let f0 = the (fraction1 (h ! a)); f1 = the (fraction0 (h ! b))
      in f0 \<ge> f1 \<or> f0 > 1)"

definition eliminateG :: "Heap \<Rightarrow> nat \<Rightarrow> nat \<Rightarrow> bool" where
  "eliminateG h b c =
     (case fraction1 (h ! b) of
        None \<Rightarrow> False
      | Some g0 \<Rightarrow> g0 > 1 \<or> (case fraction0 (h ! c) of None \<Rightarrow> False | Some g1 \<Rightarrow> g0 \<ge> g1))"

function removeLoop ::
  "GeomLib \<Rightarrow> JointOptions \<Rightarrow> nat \<Rightarrow> Heap \<Rightarrow> nat \<Rightarrow> nat option \<Rightarrow> nat \<Rightarrow> Heap \<times> nat \<times> nat \<times> nat" where
  "removeLoop L options maxTest h start jointA numTest =
     (case jointA of
        None \<Rightarrow> (h, start, 0, numTest)
      | Some a \<Rightarrow>
          if \<not> numTest < maxTest then (h, start, 0, numTest + 1)
          else
            (let continue = (\<lambda>h'. let next = nextJoint (h' ! a)
                                  in if next = Some start then (h', start, 0, numTest + 1)
                                     else removeLoop L options maxTest h' start next (numTest + 1))
             in case nextJoint (h ! a) of
                  None \<Rightarrow> continue h
                | Some b \<Rightarrow>
                    if previousJoint (h ! a) \<noteq> None \<and> nextJoint (h ! b) \<noteq> None
                       \<and> fraction1 (h ! a) \<noteq> None \<and> fraction0 (h ! b) \<noteq> None
                    then
                      (let c = the (nextJoint (h ! b))
                       in if eliminateF h a b \<and> eliminateG h b c
                          then continue (fst (spliceJoint L options h a c))
                          else if eliminateF h a b
                          then (let (h', n) = spliceJoint L options h a b
                                in (h', if a = start then n else start, 1, numTest + 1))
                          else continue h)
                    else continue h))"
  by pat_completeness auto
termination
  by (relation "measure (\<lambda>(L, options, maxTest, h, start, jointA, numTest). maxTest - numTest)") auto

definition removeDegeneratePrimitives ::
  "GeomLib \<Rightarrow> Heap \<Rightarrow> nat \<Rightarrow> JointOptions \<Rightarrow> nat \<Rightarrow> Heap \<times> nat \<times> nat \<times> nat" where
  "removeDegeneratePrimitives L h start options maxTest = removeLoop L options maxTest h start (Some start) 0"

text \<open>
  The pass loop of \<^verbatim>\<open>constructPolygonWireXYOffset\<close>, \<^verbatim>\<open>for (let pass = 0; pass++ < 5;)\<close>. It
  returns the store and the start joint, and with them the record of the passes made: the
  number of removals that each call reported.
\<close>

function passLoop ::
  "GeomLib \<Rightarrow> JointOptions \<Rightarrow> nat \<Rightarrow> nat \<Rightarrow> Heap \<Rightarrow> nat \<Rightarrow> Heap \<times> nat \<times> nat list" where
  "passLoop L options maxTest pass h joint0 =
     (if pass < 5
      then (case removeDegeneratePrimitives L h joint0 options maxTest of
              (h', newStart, numJointRemoved, numTest) \<Rightarrow>
                if numJointRemoved = 0 then (h', newStart, [numJointRemoved])
                else (case passLoop L options maxTest (pass + 1) h' newStart of
                        (h'', j, passes) \<Rightarrow> (h'', j, numJointRemoved # passes)))
      else (h, joint0, []))"
  by pat_completeness auto
termination
  by (relation "measure (\<lambda>(L, options, maxTest, pass, h, joint0). 5 - pass)") auto

definition createOffsetSegment :: "GeomLib \<Rightarrow> Point3d \<Rightarrow> Point3d \<Rightarrow> real \<Rightarrow> CurvePrimitive option" where
  "createOffsetSegment L basePointA basePointB d =
     (case normalize L (createStartEnd basePointA basePointB) of
        Some unitAlong \<Rightarrow>
          (let unitPerp = rotate90CCWXY unitAlong
           in Some (CurvePrimitive
                      (LineSegment3d (plusScaled basePointA unitPerp d) (plusScaled basePointB unitPerp d))
                      (Some basePointA) (Some basePointB)))
      | None \<Rightarrow> None)"

text \<open>
  The loop \<^verbatim>\<open>for (let i = 1; i + 1 < numPoints; i++)\<close> runs over the points from the second
  one on, taking each with its successor.
\<close>

fun linkFragments ::
  "GeomLib \<Rightarrow> real \<Rightarrow> Point3d list \<Rightarrow> Heap \<Rightarrow> nat \<Rightarrow> CurvePrimitive option
     \<Rightarrow> Heap \<times> nat \<times> CurvePrimitive option" where
  "linkFragments L d (p # q # rest) h previousJ fragment0 =
     (let fragment1 = createOffsetSegment L p q d;
          (h1, nj) = alloc h (newJoint fragment0 fragment1 (Some p));
          h2 = link h1 previousJ (Some nj)
      in linkFragments L d (q # rest) h2 nj fragment1)"
| "linkFragments L d ps h previousJ fragment0 = (h, previousJ, fragment0)"

definition buildChain :: "GeomLib \<Rightarrow> Point3d list \<Rightarrow> bool \<Rightarrow> JointOptions \<Rightarrow> Heap \<times> nat" where
  "buildChain L points wrap options =
     (let wrap' = (if wrap \<and> \<not> pointAlmostEqual L (points ! 0) (points ! (length points - 1))
                   then False else wrap);
          d = leftOffsetDistance options;
          fragment0 = createOffsetSegment L (points ! 0) (points ! 1) d;
          (h0, joint0) = alloc [] (newJoint None fragment0 (Some (points ! 0)));
          (h1, previousJ, fragment) = linkFragments L d (tl points) h0 joint0 fragment0
      in if wrap' then (link h1 previousJ (Some joint0), joint0)
         else (let (h2, nj) = alloc h1 (newJoint fragment None (Some (points ! (length points - 1))))
               in (link h2 previousJ (Some nj), joint0)))"

datatype CurveChain = Loop "Point3d list" | Path "Point3d list"

text \<open>
  The flattened point sequence that \<^verbatim>\<open>constructPolygonWireXYOffset\<close> collects from the
  finished chain, and the function itself. With fewer than two points the function reads
  a coordinate of \<^verbatim>\<open>undefined\<close> and throws a TypeError.
\<close>

definition offsetStrokes :: "GeomLib \<Rightarrow> Point3d list \<Rightarrow> bool \<Rightarrow> JointOptions \<Rightarrow> Point3d list" where
  "offsetStrokes L points wrap options =
     (let numPoints = length points;
          (h0, joint0) = buildChain L points wrap options;
          h1 = annotateChain L joint0 options numPoints h0;
          (h2, joint0', passes) = passLoop L options numPoints 0 h1 joint0
      in collectStrokesFromChain L h2 joint0' [] numPoints)"

definition constructPolygonWireXYOffset ::
  "GeomLib \<Rightarrow> Point3d list \<Rightarrow> bool \<Rightarrow> JointOptions \<Rightarrow> error + CurveChain option" where
  "constructPolygonWireXYOffset L points wrap options =
     (if length points < 2 then Inl TypeError
      else (let chain = offsetStrokes L points wrap options;
                n = length chain
            in if n > 1
               then (if pointAlmostEqual L (hd chain) (last chain) then Inr (Some (Loop chain))
                     else Inr (Some (Path chain)))
               else Inr None))"

text \<open>The joints of a chain in order, following \<open>nextJoint\<close> from the start for at most \<open>fuel\<close> joints.\<close>

fun chainFrom :: "Heap \<Rightarrow> nat \<Rightarrow> nat \<Rightarrow> nat option \<Rightarrow> nat list" where
  "chainFrom h start 0 j = []"
| "chainFrom h start (Suc fuel) None = []"
| "chainFrom h start (Suc fuel) (Some j) =
     j # (if nextJoint (h ! j) = Some start then [] else chainFrom h start fuel (nextJoint (h ! j)))"

definition chainJoints :: "Heap \<Rightarrow> nat \<Rightarrow> nat list" where
  "chainJoints h start = chainFrom h start (length h) (Some start)"

text \<open>A joint given by its nine fields, in the order of their declaration.\<close>

definition mkJoint ::
  "JointMode \<Rightarrow> CurvePrimitive option \<Rightarrow> real option \<Rightarrow> CurvePrimitive option \<Rightarrow> real option
     \<Rightarrow> CurvePrimitive option \<Rightarrow> Point3d option \<Rightarrow> nat option \<Rightarrow> nat option \<Rightarrow> Joint" where
  "mkJoint fl c0 f0 c1 f1 jc sp nx pv =
     \<lparr>flexure = fl, curve0 = c0, fraction0 = f0, curve1 = c1, fraction1 = f1, jointCurve = jc,
      swingPoint = sp, nextJoint = nx, previousJoint = pv\<rparr>"

subsection \<open>A hook-shaped polyline\<close>

text \<open>
  The polyline \<open>(0,0), (10,0), (10,1), (9,1), (9,11)\<close> with two short edges in its left turn,
  offset to the left by 3: the fragments of both short edges vanish.
\<close>

definition hookPoints :: "Point3d list" where
  "hookPoints = [(0, 0, 0), (10, 0, 0), (10, 1, 0), (9, 1, 0), (9, 11, 0)]"

definition fragE0 :: CurvePrimitive where
  "fragE0 = seg (0, 3, 0) (10, 3, 0) (0, 0, 0) (10, 0, 0)"

definition fragS1 :: CurvePrimitive where
  "fragS1 = seg (7, 0, 0) (7, 1, 0) (10, 0, 0) (10, 1, 0)"

definition fragS2 :: CurvePrimitive where
  "fragS2 = seg (10, - 2, 0) (9, - 2, 0) (10, 1, 0) (9, 1, 0)"

definition fragE1 :: CurvePrimitive where
  "fragE1 = seg (6, 1, 0) (6, 11, 0) (9, 1, 0) (9, 11, 0)"

definition hookBuilt :: Heap where
  "hookBuilt =
     [mkJoint Unknown None None (Some fragE0) None None (Some (0, 0, 0)) (Some 1) None,
      mkJoint Unknown (Some fragE0) None (Some fragS1) None None (Some (10, 0, 0)) (Some 2) (Some 0),
      mkJoint Unknown (Some fragS1) None (Some fragS2) None None (Some (10, 1, 0)) (Some 3) (Some 1),
      mkJoint Unknown (Some fragS2) None (Some fragE1) None None (Some (9, 1, 0)) (Some 4) (Some 2),
      mkJoint Unknown (Some fragE1) None None None None (Some (9, 11, 0)) None (Some 3)]"

definition hookCorner :: CurvePrimitive where
  "hookCorner = LineString3d_create [(9, - 2, 0), (6, - 2, 0), (6, 1, 0)]"

definition hookAnnotated :: Heap where
  "hookAnnotated =
     [mkJoint Cap None None (Some fragE0) (Some 0) None (Some (0, 0, 0)) (Some 1) None,
      mkJoint Trim (Some fragE0) (Some (7 / 10)) (Some fragS1) (Some 3) None (Some (10, 0, 0)) (Some 2) (Some 0),
      mkJoint Trim (Some fragS1) (Some (- 2)) (Some fragS2) (Some 3) None (Some (10, 1, 0)) (Some 3) (Some 1),
      mkJoint Extend (Some fragS2) (Some 1) (Some fragE1) (Some 0) (Some hookCorner) (Some (9, 1, 0)) (Some 4) (Some 2),
      mkJoint Cap (Some fragE1) (Some 1) None None None (Some (9, 11, 0)) None (Some 3)]"

definition hookDoubleCut :: Heap where
  "hookDoubleCut =
     [mkJoint Cap None None (Some fragE0) (Some 0) None (Some (0, 0, 0)) (Some 5) None,
      mkJoint Trim (Some fragE0) (Some (7 / 10)) (Some fragS1) (Some 3) None (Some (10, 0, 0)) (Some 2) (Some 0),
      mkJoint Trim (Some fragS1) (Some (- 2)) (Some fragS2) (Some 3) None (Some (10, 1, 0)) (Some 3) (Some 1),
      mkJoint Extend (Some fragS2) (Some 1) (Some fragE1) (Some 0) (Some hookCorner) (Some (9, 1, 0)) (Some 4) (Some 2),
      mkJoint Cap (Some fragE1) (Some 1) None None None (Some (9, 11, 0)) None (Some 5),
      mkJoint Trim (Some fragE0) (Some (3 / 5)) (Some fragE1) (Some (1 / 5)) None None (Some 4) (Some 0)]"

definition hookRemoved :: Heap where
  "hookRemoved =
     [mkJoint Cap None None (Some fragE0) (Some 0) None (Some (0, 0, 0)) (Some 5) None,
      mkJoint Trim (Some fragE0) (Some (7 / 10)) (Some fragS1) (Some 3) None (Some (10, 0, 0)) (Some 6) (Some 0),
      mkJoint Trim (Some fragS1) (Some (- 2)) (Some fragS2) (Some 3) None (Some (10, 1, 0)) (Some 3) (Some 1),
      mkJoint Extend (Some fragS2) (Some 1) (Some fragE1) (Some 0) (Some hookCorner) (Some (9, 1, 0)) (Some 4) (Some 2),
      mkJoint Cap (Some fragE1) (Some 1) None None None (Some (9, 11, 0)) None (Some 6),
      mkJoint Trim (Some fragE0) (Some (3 / 5)) (Some fragE1) (Some (1 / 5)) None None (Some 4) (Some 0),
      mkJoint Unknown (Some fragS1) None (Some fragE1) None None None (Some 4) (Some 1)]"

subsection \<open>The chain of an offset by zero\<close>








text \<open>
  A polyline whose last point is repeated, offset to the left by 3, with its chain as
  built: the last edge has no direction and gives no fragment.
\<close>

definition stubPoints :: "Point3d list" where
  "stubPoints = [(0, 0, 0), (1, 0, 0), (1, 0, 0)]"

definition stubBuilt :: Heap where
  "stubBuilt =
     [mkJoint Unknown None None (Some (seg (0, 3, 0) (1, 3, 0) (0, 0, 0) (1, 0, 0))) None None (Some (0, 0, 0)) (Some 1) None,
      mkJoint Unknown (Some (seg (0, 3, 0) (1, 3, 0) (0, 0, 0) (1, 0, 0))) None None None None (Some (1, 0, 0)) (Some 2) (Some 0),
      mkJoint Unknown None None None None None (Some (1, 0, 0)) None (Some 1)]"




section \<open>Tile decoder: stream, headers and feature table (ImdlParser.ts)\<close>

text \<open>
  Modelled from the spec: \<^verbatim>\<open>ByteStream\<close> (core-bentley) is not among the sources. It owns a
  backing buffer and a read cursor, reads fixed-width little-endian integers and raw byte
  slices, and tracks bounds with \<^verbatim>\<open>isPastTheEnd\<close>, which holds when the cursor lies beyond
  the length of the buffer. What a read that reaches beyond the end of the buffer does is
  not said, and the decoder is written for both answers: it tests \<^verbatim>\<open>isPastTheEnd\<close> after
  reading, and it runs the parser inside a \<^verbatim>\<open>try\<close> block. The answer is therefore a
  parameter of the model: under \<open>Lenient\<close> such a read delivers zero for the bytes that are
  missing and moves the cursor on; under \<open>Strict\<close> it throws a RangeError, as the typed
  views of the platform do, and leaves nothing behind.
\<close>

type_synonym byte = "8 word"

datatype BoundsPolicy = Lenient | Strict

record ByteStream =
  arrayBuffer :: "byte list"
  curPos :: nat

definition isPastTheEnd :: "ByteStream \<Rightarrow> bool" where
  "isPastTheEnd s = (curPos s > length (arrayBuffer s))"

definition byteAt :: "byte list \<Rightarrow> nat \<Rightarrow> nat" where
  "byteAt buf i = (if i < length buf then unat (buf ! i) else 0)"

definition uint32At :: "byte list \<Rightarrow> nat \<Rightarrow> nat" where
  "uint32At buf p = byteAt buf p + 256 * byteAt buf (p + 1) + 65536 * byteAt buf (p + 2)
                    + 16777216 * byteAt buf (p + 3)"

definition uint16At :: "byte list \<Rightarrow> nat \<Rightarrow> nat" where
  "uint16At buf p = byteAt buf p + 256 * byteAt buf (p + 1)"

definition throwsAt :: "BoundsPolicy \<Rightarrow> ByteStream \<Rightarrow> nat \<Rightarrow> bool" where
  "throwsAt p s n = (p = Strict \<and> length (arrayBuffer s) < curPos s + n)"

definition readUint32 :: "BoundsPolicy \<Rightarrow> ByteStream \<Rightarrow> error + nat \<times> ByteStream" where
  "readUint32 p s =
     (if throwsAt p s 4 then Inl RangeError
      else Inr (uint32At (arrayBuffer s) (curPos s), s\<lparr>curPos := curPos s + 4\<rparr>))"

definition nextBytes :: "BoundsPolicy \<Rightarrow> ByteStream \<Rightarrow> nat \<Rightarrow> error + byte list \<times> ByteStream" where
  "nextBytes p s n =
     (if throwsAt p s n then Inl RangeError
      else Inr (take n (drop (curPos s) (arrayBuffer s)), s\<lparr>curPos := curPos s + n\<rparr>))"

definition nextUint32s :: "BoundsPolicy \<Rightarrow> ByteStream \<Rightarrow> nat \<Rightarrow> error + nat list \<times> ByteStream" where
  "nextUint32s p s n =
     (if throwsAt p s (4 * n) then Inl RangeError
      else Inr (map (\<lambda>k. uint32At (arrayBuffer s) (curPos s + 4 * k)) [0 ..< n],
                s\<lparr>curPos := curPos s + 4 * n\<rparr>))"

text \<open>Sequencing of two steps of which the first may throw.\<close>

definition andThen :: "error + 'a \<Rightarrow> ('a \<Rightarrow> error + 'b) \<Rightarrow> error + 'b" where
  "andThen r f = (case r of Inl e \<Rightarrow> Inl e | Inr x \<Rightarrow> f x)"

text \<open>
  Modelled from the spec: the constants of the tile and glTF containers (core-common) are
  not among the sources: the glTF format tag, the two glTF versions, the version-1
  scene-format sentinel and the two version-2 chunk type tags.
\<close>

definition TileFormat_Unknown :: nat where "TileFormat_Unknown = 0"
definition TileFormat_Gltf :: nat where "TileFormat_Gltf = 0x46546C67"
definition GltfVersions_Version1 :: nat where "GltfVersions_Version1 = 1"
definition GltfVersions_Version2 :: nat where "GltfVersions_Version2 = 2"
definition GltfVersions_Gltf1SceneFormat :: nat where "GltfVersions_Gltf1SceneFormat = 0"
definition GltfV2ChunkTypes_JSON :: nat where "GltfV2ChunkTypes_JSON = 0x4E4F534A"
definition GltfV2ChunkTypes_Binary :: nat where "GltfV2ChunkTypes_Binary = 0x004E4942"

text \<open>
  \<^verbatim>\<open>GltfHeader\<close> extends \<^verbatim>\<open>TileHeader\<close>, whose constructor (modelled from the spec: a format
  tag and a version) reads the first two words; \<^verbatim>\<open>invalidate\<close> resets the format tag.
\<close>

record GltfHeader =
  format :: nat
  version :: nat
  gltfLength :: nat
  scenePosition :: nat
  sceneStrLength :: nat
  binaryPosition :: nat

definition invalidate :: "GltfHeader \<Rightarrow> GltfHeader" where
  "invalidate h = h\<lparr>format := TileFormat_Unknown\<rparr>"

definition GltfHeader_isValid :: "GltfHeader \<Rightarrow> bool" where
  "GltfHeader_isValid h = (TileFormat_Gltf = format h)"

definition GltfHeader_new :: "BoundsPolicy \<Rightarrow> ByteStream \<Rightarrow> error + GltfHeader \<times> ByteStream" where
  "GltfHeader_new p s0 =
     andThen (readUint32 p s0) (\<lambda>(fmt, s1).
     andThen (readUint32 p s1) (\<lambda>(ver, s2).
     andThen (readUint32 p s2) (\<lambda>(gltfLen, s3).
     andThen (readUint32 p s3) (\<lambda>(sceneLen, s4).
     andThen (readUint32 p s4) (\<lambda>(value5, s5).
       (let ver' = (if ver = GltfVersions_Version2 \<and> value5 = GltfVersions_Gltf1SceneFormat
                    then GltfVersions_Version1 else ver);
            h = \<lparr>format = fmt, version = ver', gltfLength = gltfLen, scenePosition = 0,
                 sceneStrLength = sceneLen, binaryPosition = 0\<rparr>
        in if ver' = GltfVersions_Version1 then
             (if GltfVersions_Gltf1SceneFormat \<noteq> value5 then Inr (invalidate h, s5)
              else Inr (h\<lparr>scenePosition := curPos s5, binaryPosition := curPos s5 + sceneLen\<rparr>, s5))
           else if ver' = GltfVersions_Version2 then
             (let h1 = h\<lparr>scenePosition := curPos s5\<rparr>;
                  s6 = s5\<lparr>curPos := curPos s5 + sceneLen\<rparr>
              in andThen (readUint32 p s6) (\<lambda>(binaryLength, s7).
                 andThen (readUint32 p s7) (\<lambda>(binaryChunkType, s8).
                   if GltfV2ChunkTypes_JSON \<noteq> value5 \<or> GltfV2ChunkTypes_Binary \<noteq> binaryChunkType
                      \<or> 0 = binaryLength
                   then Inr (invalidate h1, s8)
                   else Inr (h1\<lparr>binaryPosition := curPos s8\<rparr>, s8))))
           else Inr (invalidate h, s5)))))))"

text \<open>
  Modelled from the spec: \<^verbatim>\<open>FeatureTableHeader\<close> (core-common) is not among the sources. The
  header is three 32-bit words: the declared total length in bytes, which includes the
  header's own fixed size, the feature count, and the sub-category count of multi-model
  tables. \<^verbatim>\<open>readFrom\<close> yields nothing when reading ran past the end of the buffer.
\<close>

record FeatureTableHeader =
  ftLength :: nat
  ftCount :: nat
  numSubCategories :: nat

definition FeatureTableHeader_sizeInBytes :: nat where
  "FeatureTableHeader_sizeInBytes = 12"

definition FeatureTableHeader_readFrom ::
  "BoundsPolicy \<Rightarrow> ByteStream \<Rightarrow> error + FeatureTableHeader option \<times> ByteStream" where
  "FeatureTableHeader_readFrom p s0 =
     andThen (readUint32 p s0) (\<lambda>(len, s1).
     andThen (readUint32 p s1) (\<lambda>(cnt, s2).
     andThen (readUint32 p s2) (\<lambda>(sub, s3).
       Inr (if isPastTheEnd s3 then None
            else Some \<lparr>ftLength = len, ftCount = cnt, numSubCategories = sub\<rparr>, s3))))"

text \<open>
  JSON values; \<open>None\<close> of type \<open>json option\<close> stands for \<^verbatim>\<open>undefined\<close>. \<open>JInherited name\<close> is
  the member \<open>name\<close> that a plain object inherits from \<^verbatim>\<open>Object.prototype\<close>: a value that no
  JSON text denotes, but that reading a property of a parsed object can deliver.
\<close>

datatype json =
    JNull
  | JBool bool
  | JNumber real
  | JString jsstring
  | JArray "json list"
  | JObject "(jsstring \<times> json) list"
  | JInherited jsstring

text \<open>
  Reading a property with a fixed name, \<^verbatim>\<open>v.p\<close>: \<^verbatim>\<open>null.p\<close> throws a TypeError, a missing
  property is undefined. The names that the decoder reads in this way (\<^verbatim>\<open>scene\<close>,
  \<^verbatim>\<open>meshes\<close>, \<^verbatim>\<open>byteOffset\<close>, ...) are own properties or missing: no value inherits a member
  of one of these names.
\<close>

fun getProp :: "json \<Rightarrow> jsstring \<Rightarrow> error + json option" where
  "getProp JNull p = Inl TypeError"
| "getProp (JObject kvs) p = Inr (map_of kvs p)"
| "getProp v p = Inr None"

text \<open>
  Reading a property of a parsed object with a computed name, \<^verbatim>\<open>o[name]\<close>: the object's own
  entry of that name if it has one; else, for the names of the members of
  \<^verbatim>\<open>Object.prototype\<close>, the inherited member; else undefined.
\<close>

definition objectPrototypeNames :: "jsstring list" where
  "objectPrototypeNames =
     map js [''constructor'', ''__defineGetter__'', ''__defineSetter__'', ''hasOwnProperty'',
             ''__lookupGetter__'', ''__lookupSetter__'', ''isPrototypeOf'',
             ''propertyIsEnumerable'', ''toString'', ''valueOf'', ''__proto__'',
             ''toLocaleString'']"

definition lookupProperty :: "(jsstring \<times> json) list \<Rightarrow> jsstring \<Rightarrow> json option" where
  "lookupProperty kvs name =
     (case map_of kvs name of
        Some v \<Rightarrow> Some v
      | None \<Rightarrow> if name \<in> set objectPrototypeNames then Some (JInherited name) else None)"

text \<open>
  Modelled from the spec: \<^verbatim>\<open>JsonUtils\<close> (core-bentley) is not among the sources; every field
  is coerced defensively, a wrong-typed or missing field counting as absent or as the
  default.
\<close>

fun asString :: "json option \<Rightarrow> jsstring" where
  "asString (Some (JString s)) = s"
| "asString v = []"

definition Math_trunc :: "real \<Rightarrow> int" where
  "Math_trunc r = (if r < 0 then \<lceil>r\<rceil> else \<lfloor>r\<rfloor>)"

fun asInt :: "json option \<Rightarrow> int" where
  "asInt (Some (JNumber r)) = Math_trunc r"
| "asInt v = 0"

fun asArray :: "json option \<Rightarrow> json list option" where
  "asArray (Some (JArray xs)) = Some xs"
| "asArray v = None"

fun asObject :: "json option \<Rightarrow> (jsstring \<times> json) list option" where
  "asObject (Some (JObject kvs)) = Some kvs"
| "asObject v = None"

record Document =
  scene :: jsstring
  scenes :: "json list option"
  animationNodes :: "(jsstring \<times> json) list option"
  bufferViews :: "(jsstring \<times> json) list"
  meshes :: "(jsstring \<times> json) list option"
  nodes :: "(jsstring \<times> json) list"
  materials :: "(jsstring \<times> json) list"
  renderMaterials :: "(jsstring \<times> json) list"
  namedTextures :: "(jsstring \<times> json) list"
  patternSymbols :: "(jsstring \<times> json) list"
  rtcCenter :: "json list option"

datatype TileReadStatus =
  InvalidTileData | InvalidScene | InvalidFeatureTable | InvalidHeader | NewerMajorVersion

datatype FeatureTable =
    MultiModelTable (ftData: "nat list") (numFeatures: nat) nat
  | SingleModelTable (ftData: "nat list") (numFeatures: nat) (animationNodeIds: "nat list option")

record FeatureTableInfo =
  startPos :: nat
  multiModel :: bool

text \<open>
  A \<^verbatim>\<open>Uint8Array\<close> view of the backing buffer: the bytes it shows and the offset of its
  first byte in the buffer.
\<close>

record Uint8Array =
  bytes :: "byte list"
  byteOffset :: nat

text \<open>\<^verbatim>\<open>TypedArray.subarray(begin, end)\<close>: negative indices count from the end, both are clamped.\<close>

definition relativeIndex :: "int \<Rightarrow> nat \<Rightarrow> nat" where
  "relativeIndex i len = (if i < 0 then nat (max (int len + i) 0) else min (nat i) len)"

definition subarray :: "Uint8Array \<Rightarrow> int \<Rightarrow> int \<Rightarrow> Uint8Array" where
  "subarray a b e =
     (let len = length (bytes a);
          beginIndex = relativeIndex b len;
          endIndex = relativeIndex e len
      in \<lparr>bytes = take (endIndex - beginIndex) (drop beginIndex (bytes a)),
          byteOffset = byteOffset a + beginIndex\<rparr>)"

text \<open>
  \<^verbatim>\<open>new Uint16Array(buffer, byteOffset, n / 2)\<close> and its 32-bit sibling: the offset must be
  a multiple of the element size (RangeError), a fractional length is truncated.
\<close>

definition uintNArray :: "nat \<Rightarrow> Uint8Array \<Rightarrow> error + nat list" where
  "uintNArray w a =
     (if byteOffset a mod w \<noteq> 0 then Inl RangeError
      else Inr (map (\<lambda>k. if w = 2 then uint16At (bytes a) (w * k) else uint32At (bytes a) (w * k))
                  [0 ..< length (bytes a) div w]))"

definition readAnimationNodeIds :: "Document \<Rightarrow> Uint8Array \<Rightarrow> error + nat list option" where
  "readAnimationNodeIds doc binaryData =
     (case animationNodes doc of
        None \<Rightarrow> Inr None
      | Some an \<Rightarrow>
          (let bytesPerId = asInt (map_of an (js ''bytesPerId''));
               bufferViewId = asString (map_of an (js ''bufferView''))
           in case lookupProperty (bufferViews doc) bufferViewId of
                None \<Rightarrow> Inr None
              | Some bufferViewJson \<Rightarrow>
                  (case getProp bufferViewJson (js ''byteOffset'') of
                     Inl e \<Rightarrow> Inl e
                   | Inr off \<Rightarrow>
                      (case getProp bufferViewJson (js ''byteLength'') of
                         Inl e \<Rightarrow> Inl e
                       | Inr len \<Rightarrow>
                          (let byteOffset = asInt off;
                               byteLength = asInt len;
                               bs = subarray binaryData byteOffset (byteOffset + byteLength)
                           in if bytesPerId = 1 then Inr (Some (map unat (bytes bs)))
                              else if bytesPerId = 2 then map_sum id Some (uintNArray 2 bs)
                              else if bytesPerId = 4 then map_sum id Some (uintNArray 4 bs)
                              else Inr None)))))"

definition parseFeatureTable ::
  "BoundsPolicy \<Rightarrow> Document \<Rightarrow> Uint8Array \<Rightarrow> FeatureTableInfo \<Rightarrow> ByteStream
     \<Rightarrow> error + FeatureTable option \<times> ByteStream" where
  "parseFeatureTable p doc binaryData info s0 =
     (let s1 = s0\<lparr>curPos := startPos info\<rparr>
      in andThen (FeatureTableHeader_readFrom p s1) (\<lambda>(header, s2).
           case header of
             None \<Rightarrow> Inr (None, s2)
           | Some h \<Rightarrow>
               if 0 \<noteq> ftLength h mod 4 then Inr (None, s2)
               else
                 (let numUint32s = (int (ftLength h) - int FeatureTableHeader_sizeInBytes) div 4
                  in if numUint32s < 0 then Inl RangeError
                     else
                       andThen (nextUint32s p s2 (nat numUint32s)) (\<lambda>(packedFeatureArray, s3).
                         if isPastTheEnd s3 then Inr (None, s3)
                         else
                           (let s4 = s3\<lparr>curPos := startPos info + ftLength h\<rparr>
                            in if multiModel info
                               then Inr (Some (MultiModelTable packedFeatureArray (ftCount h) (numSubCategories h)), s4)
                               else
                                 (case readAnimationNodeIds doc binaryData of
                                    Inl e \<Rightarrow> Inl e
                                  | Inr animNodesArray \<Rightarrow>
                                      Inr (Some (SingleModelTable packedFeatureArray (ftCount h) animNodesArray), s4)))))))"

text \<open>
  The tile header class, the UTF-8 decoder, \<^verbatim>\<open>JSON.parse\<close> and the traversal of the scene
  nodes are parameters of the decoder: the first two are imported from other packages,
  and the claims do not depend on the last two beyond their failing (\<open>Inl\<close>) or delivering.
\<close>

record ImdlHeader =
  isValid :: bool
  isReadableVersion :: bool
  multiModelFeatureTable :: bool

record 'n Decoder =
  readImdlHeader :: "ByteStream \<Rightarrow> error + ImdlHeader \<times> ByteStream"
  utf8ToString :: "byte list \<Rightarrow> jsstring option"
  JSON_parse :: "jsstring \<Rightarrow> error + json"
  parseNodes :: "Document \<Rightarrow> Uint8Array \<Rightarrow> FeatureTable \<Rightarrow> error + 'n"

record 'n ImdlDocument =
  featureTable :: FeatureTable
  docNodes :: 'n
  docRtcCenter :: "(json \<times> json \<times> json) option"
  docBinaryData :: Uint8Array
  docJson :: Document

text \<open>\<^verbatim>\<open>a[i] ?? 0\<close>: a missing or null element is replaced by 0.\<close>

definition elementOrZero :: "json list \<Rightarrow> nat \<Rightarrow> json" where
  "elementOrZero a i = (if i < length a \<and> a ! i \<noteq> JNull then a ! i else JNumber 0)"

definition rtcCenterOf :: "Document \<Rightarrow> (json \<times> json \<times> json) option" where
  "rtcCenterOf doc =
     (case rtcCenter doc of
        None \<Rightarrow> None
      | Some a \<Rightarrow> Some (elementOrZero a 0, elementOrZero a 1, elementOrZero a 2))"

definition parse ::
  "BoundsPolicy \<Rightarrow> 'n Decoder \<Rightarrow> Document \<Rightarrow> Uint8Array \<Rightarrow> FeatureTableInfo \<Rightarrow> ByteStream
     \<Rightarrow> error + (TileReadStatus + 'n ImdlDocument)" where
  "parse p D doc binaryData info s =
     (case parseFeatureTable p doc binaryData info s of
        Inl e \<Rightarrow> Inl e
      | Inr (None, s') \<Rightarrow> Inr (Inl InvalidFeatureTable)
      | Inr (Some ft, s') \<Rightarrow>
          (let rtc = rtcCenterOf doc
           in case parseNodes D doc binaryData ft of
                Inl e \<Rightarrow> Inl e
              | Inr ns \<Rightarrow>
                  Inr (Inr \<lparr>featureTable = ft, docNodes = ns, docRtcCenter = rtc,
                            docBinaryData = binaryData, docJson = doc\<rparr>)))"

definition objectOrEmpty :: "json option \<Rightarrow> (jsstring \<times> json) list" where
  "objectOrEmpty v = (case asObject v of None \<Rightarrow> [] | Some kvs \<Rightarrow> kvs)"

text \<open>
  The object literal \<^verbatim>\<open>imdlDoc\<close> of \<^verbatim>\<open>parseImdlDocument\<close>, built from the parsed scene value
  (which is not \<^verbatim>\<open>null\<close> where the literal is reached).
\<close>

definition imdlDoc :: "json \<Rightarrow> Document" where
  "imdlDoc sceneValue =
     (let prop = (\<lambda>p. case getProp sceneValue (js p) of Inl e \<Rightarrow> None | Inr v \<Rightarrow> v)
      in \<lparr>scene = asString (prop ''scene''),
          scenes = asArray (prop ''scenes''),
          animationNodes = asObject (prop ''animationNodes''),
          bufferViews = objectOrEmpty (prop ''bufferViews''),
          meshes = asObject (prop ''meshes''),
          nodes = objectOrEmpty (prop ''nodes''),
          materials = objectOrEmpty (prop ''materials''),
          renderMaterials = objectOrEmpty (prop ''renderMaterials''),
          namedTextures = objectOrEmpty (prop ''namedTextures''),
          patternSymbols = objectOrEmpty (prop ''patternSymbols''),
          rtcCenter = asArray (prop ''rtcCenter'')\<rparr>)"

text \<open>The body of the \<^verbatim>\<open>try\<close> block of \<^verbatim>\<open>parseImdlDocument\<close>; \<open>Inl\<close> is a thrown exception.\<close>

definition parseScene ::
  "BoundsPolicy \<Rightarrow> 'n Decoder \<Rightarrow> jsstring \<Rightarrow> GltfHeader \<Rightarrow> FeatureTableInfo \<Rightarrow> ByteStream
     \<Rightarrow> error + (TileReadStatus + 'n ImdlDocument)" where
  "parseScene p D sceneStr gltfHeader info s =
     (case JSON_parse D sceneStr of
        Inl e \<Rightarrow> Inl e
      | Inr sceneValue \<Rightarrow>
          (case getProp sceneValue (js ''scene'') of
             Inl e \<Rightarrow> Inl e
           | Inr _ \<Rightarrow>
               if meshes (imdlDoc sceneValue) = None then Inr (Inl InvalidTileData)
               else if binaryPosition gltfHeader > length (arrayBuffer s) then Inl RangeError
               else
                 (let binaryData = \<lparr>bytes = drop (binaryPosition gltfHeader) (arrayBuffer s),
                                    byteOffset = binaryPosition gltfHeader\<rparr>
                  in parse p D (imdlDoc sceneValue) binaryData info s)))"

text \<open>
  \<open>parseImdlDocument\<close>; \<open>Inl\<close> is an exception that leaves the function: one thrown by the
  reading of the tile header, of the feature-table header, of the glTF header or of the
  scene bytes, all of which come before the \<^verbatim>\<open>try\<close> block.
\<close>

definition parseImdlDocument ::
  "BoundsPolicy \<Rightarrow> 'n Decoder \<Rightarrow> ByteStream \<Rightarrow> error + (TileReadStatus + 'n ImdlDocument)" where
  "parseImdlDocument p D stream =
     andThen (readImdlHeader D stream) (\<lambda>(imdlHeader, s1).
       if \<not> isValid imdlHeader then Inr (Inl InvalidHeader)
       else if \<not> isReadableVersion imdlHeader then Inr (Inl NewerMajorVersion)
       else
         (let ftStartPos = curPos s1
          in andThen (FeatureTableHeader_readFrom p s1) (\<lambda>(ftHeader, s2).
               case ftHeader of
                 None \<Rightarrow> Inr (Inl InvalidFeatureTable)
               | Some fth \<Rightarrow>
                   (let s3 = s2\<lparr>curPos := ftStartPos + ftLength fth\<rparr>
                    in andThen (GltfHeader_new p s3) (\<lambda>(gltfHeader, s4).
                         if \<not> GltfHeader_isValid gltfHeader then Inr (Inl InvalidTileData)
                         else
                           (let s5 = s4\<lparr>curPos := scenePosition gltfHeader\<rparr>
                            in andThen (nextBytes p s5 (sceneStrLength gltfHeader)) (\<lambda>(sceneStrData, s6).
                                 case utf8ToString D sceneStrData of
                                   None \<Rightarrow> Inr (Inl InvalidScene)
                                 | Some sceneStr \<Rightarrow>
                                     if sceneStr = [] then Inr (Inl InvalidScene)
                                     else
                                       (case parseScene p D sceneStr gltfHeader
                                               \<lparr>startPos = ftStartPos,
                                                multiModel = multiModelFeatureTable imdlHeader\<rparr> s6 of
                                          Inl e \<Rightarrow> Inr (Inl InvalidTileData)
                                        | Inr r \<Rightarrow> Inr r))))))))"


text \<open>
  The three ways in which the feature table that starts at position \<open>f\<close> of the stream is
  malformed: its header of three words does not fit into the buffer, its declared length is
  not a multiple of 4, or its packed array runs past the end of the buffer.
\<close>

definition headerUnreadable :: "ByteStream \<Rightarrow> nat \<Rightarrow> bool" where
  "headerUnreadable s f = (length (arrayBuffer s) < f + FeatureTableHeader_sizeInBytes)"

definition lengthMisaligned :: "ByteStream \<Rightarrow> nat \<Rightarrow> bool" where
  "lengthMisaligned s f = (\<not> headerUnreadable s f \<and> uint32At (arrayBuffer s) f mod 4 \<noteq> 0)"

definition arrayOverruns :: "ByteStream \<Rightarrow> nat \<Rightarrow> bool" where
  "arrayOverruns s f =
     (\<not> headerUnreadable s f \<and> uint32At (arrayBuffer s) f mod 4 = 0
      \<and> FeatureTableHeader_sizeInBytes \<le> uint32At (arrayBuffer s) f
      \<and> length (arrayBuffer s) < f + uint32At (arrayBuffer s) f)"

definition featureTableMalformed :: "ByteStream \<Rightarrow> nat \<Rightarrow> bool" where
  "featureTableMalformed s f = (headerUnreadable s f \<or> lengthMisaligned s f \<or> arrayOverruns s f)"

subsection \<open>An instance of the decoder's parameters\<close>

text \<open>
  Modelled from the spec: a tile header of three words (format tag, version with the major
  version in its upper half, flags), valid when the tag is \<^verbatim>\<open>iMdl\<close> and readable up to the
  current major version; flag bit 2 marks a multi-model feature table. The scene text is
  ASCII. The JSON reader of this instance knows the one scene text of the examples, and
  the node traversal delivers the empty node list of a scene without \<^verbatim>\<open>Node_Root\<close>.
\<close>

definition exampleHeader :: "BoundsPolicy \<Rightarrow> ByteStream \<Rightarrow> error + ImdlHeader \<times> ByteStream" where
  "exampleHeader p s0 =
     andThen (readUint32 p s0) (\<lambda>(fmt, s1).
     andThen (readUint32 p s1) (\<lambda>(ver, s2).
     andThen (readUint32 p s2) (\<lambda>(flags, s3).
       Inr (\<lparr>isValid = (fmt = 0x6C644D69), isReadableVersion = (ver div 65536 \<le> 33),
             multiModelFeatureTable = ((flags div 4) mod 2 = 1)\<rparr>, s3))))"

definition exampleJson :: "jsstring \<Rightarrow> error + json" where
  "exampleJson str =
     (if str = js ''{\"meshes\":{}}'' then Inr (JObject [(js ''meshes'', JObject [])])
      else Inl SyntaxError)"

definition exampleNodes :: "Document \<Rightarrow> Uint8Array \<Rightarrow> FeatureTable \<Rightarrow> error + json list" where
  "exampleNodes doc bd ft = (if map_of (nodes doc) (js ''Node_Root'') = None then Inr [] else Inl TypeError)"

definition exampleDecoder :: "BoundsPolicy \<Rightarrow> json list Decoder" where
  "exampleDecoder p =
     \<lparr>readImdlHeader = exampleHeader p,
      utf8ToString = (\<lambda>bs. Some (map unat bs)),
      JSON_parse = exampleJson,
      parseNodes = exampleNodes\<rparr>"

text \<open>
  Tiles, byte by byte: tile header (\<^verbatim>\<open>iMdl\<close>, version 0, flags 0), feature-table header
  (declared length, one feature, one sub-category) and its body, glTF header (\<^verbatim>\<open>glTF\<close>,
  version, length, scene length, fifth word), scene text and three bytes of binary data.
  \<open>tileBytes\<close> declares the feature-table length \<open>n\<close> over a body of one packed word and the
  glTF version \<open>v\<close>, with the scene text \<^verbatim>\<open>{"meshes":{}}\<close>; \<open>oddLengthBytes\<close> declares a feature
  table of 14 bytes, followed by a version-1 glTF header and the same scene text;
  \<open>brokenSceneBytes\<close> declares a feature table of 13 bytes, followed by a version-1 glTF
  header and the scene text \<^verbatim>\<open>{\<close>; \<open>truncatedBytes\<close> ends after two words of the
  feature-table header.
\<close>

definition tileBytes :: "nat \<Rightarrow> nat \<Rightarrow> byte list" where
  "tileBytes n v =
     [105, 77, 100, 108, 0, 0, 0, 0, 0, 0, 0, 0,
      of_nat n, 0, 0, 0, 1, 0, 0, 0, 1, 0, 0, 0, 7, 0, 0, 0,
      103, 108, 84, 70, of_nat v, 0, 0, 0, 0, 0, 0, 0, 13, 0, 0, 0, 0, 0, 0, 0,
      123, 34, 109, 101, 115, 104, 101, 115, 34, 58, 123, 125, 125,
      1, 2, 3]"

definition oddLengthBytes :: "byte list" where
  "oddLengthBytes =
     [105, 77, 100, 108, 0, 0, 0, 0, 0, 0, 0, 0,
      14, 0, 0, 0, 1, 0, 0, 0, 1, 0, 0, 0, 7, 0,
      103, 108, 84, 70, 1, 0, 0, 0, 0, 0, 0, 0, 13, 0, 0, 0, 0, 0, 0, 0,
      123, 34, 109, 101, 115, 104, 101, 115, 34, 58, 123, 125, 125,
      1, 2, 3]"

definition brokenSceneBytes :: "byte list" where
  "brokenSceneBytes =
     [105, 77, 100, 108, 0, 0, 0, 0, 0, 0, 0, 0,
      13, 0, 0, 0, 1, 0, 0, 0, 1, 0, 0, 0, 7,
      103, 108, 84, 70, 1, 0, 0, 0, 0, 0, 0, 0, 1, 0, 0, 0, 0, 0, 0, 0,
      123,
      1, 2, 3]"

definition truncatedBytes :: "byte list" where
  "truncatedBytes =
     [105, 77, 100, 108, 0, 0, 0, 0, 0, 0, 0, 0,
      16, 0, 0, 0, 1, 0, 0, 0]"



definition overrunTile :: ByteStream where
  "overrunTile = \<lparr>arrayBuffer = tileBytes 200 1, curPos = 0\<rparr>"

definition oddLengthTile :: ByteStream where
  "oddLengthTile = \<lparr>arrayBuffer = oddLengthBytes, curPos = 0\<rparr>"

definition brokenSceneTile :: ByteStream where
  "brokenSceneTile = \<lparr>arrayBuffer = brokenSceneBytes, curPos = 0\<rparr>"

definition truncatedTile :: ByteStream where
  "truncatedTile = \<lparr>arrayBuffer = truncatedBytes, curPos = 0\<rparr>"

text \<open>The scene document of the scene text \<^verbatim>\<open>{"meshes":{}}\<close>.\<close>

definition plainDocument :: Document where
  "plainDocument =
     \<lparr>scene = [], scenes = None, animationNodes = None, bufferViews = [],
      meshes = Some [], nodes = [], materials = [], renderMaterials = [], namedTextures = [],
      patternSymbols = [], rtcCenter = None\<rparr>"


text \<open>
  A scene document that declares animation node ids of one byte each in a buffer view of
  three bytes, and one whose descriptor names the buffer view \<^verbatim>\<open>toString\<close>, which the
  scene does not define.
\<close>

definition animatedDocument :: Document where
  "animatedDocument =
     \<lparr>scene = [], scenes = None,
      animationNodes = Some [(js ''bytesPerId'', JNumber 1), (js ''bufferView'', JString (js ''bv''))],
      bufferViews = [(js ''bv'', JObject [(js ''byteOffset'', JNumber 0), (js ''byteLength'', JNumber 3)])],
      meshes = Some [], nodes = [], materials = [], renderMaterials = [], namedTextures = [],
      patternSymbols = [], rtcCenter = None\<rparr>"


section \<open>Auxiliary lemmas\<close>

subsection \<open>The node-id pattern\<close>

lemma foldl_digits_app:
  "foldl (\<lambda>acc d. 10 * acc + (d - 48)) a (ds @ [d]) = 10 * foldl (\<lambda>acc d. 10 * acc + (d - 48)) a ds + (d - (48::nat))"
  by simp

lemma decimalValue_snoc: "decimalValue (ds @ [d]) = 10 * decimalValue ds + (d - 48)"
proof -
  have "(\<Sum>i < length ds. ((ds @ [d]) ! i - 48) * 10 ^ (length ds - i))
      = (\<Sum>i < length ds. 10 * ((ds ! i - 48) * 10 ^ (length ds - 1 - i)))"
  proof (rule sum.cong)
    fix i assume "i \<in> {..<length ds}"
    then have i: "i < length ds" by simp
    then have "length ds - i = Suc (length ds - 1 - i)" by simp
    then show "((ds @ [d]) ! i - 48) * 10 ^ (length ds - i) = 10 * ((ds ! i - 48) * 10 ^ (length ds - 1 - i))"
      using i by (simp add: nth_append)
  qed simp
  then show ?thesis
    by (simp add: decimalValue_def sum_distrib_left)
qed

lemma digitsToNat_decimalValue: "digitsToNat ds = decimalValue ds"
proof (induction ds rule: rev_induct)
  case Nil
  show ?case by (simp add: digitsToNat_def decimalValue_def)
next
  case (snoc d ds)
  then show ?case by (simp add: digitsToNat_def decimalValue_snoc)
qed

lemma digit_not_terminator: "isDigit c \<Longrightarrow> \<not> isLineTerminator c"
  by (auto simp: isDigit_def isLineTerminator_def)

lemma digit_not_space: "isDigit c \<Longrightarrow> \<not> isWhiteSpace c"
  by (auto simp: isDigit_def isWhiteSpace_def isLineTerminator_def)

lemma digit_not_sign: "isDigit c \<Longrightarrow> c \<noteq> 43 \<and> c \<noteq> 45"
  by (auto simp: isDigit_def)

lemma takeWhile_all: "list_all P xs \<Longrightarrow> takeWhile P xs = xs"
  by (induction xs) auto

lemma nodeIdRegex_prefix:
  assumes "list_all isDigit ds"
  shows "nodeIdRegex (js ''Node_'' @ ds) = Some ds"
proof -
  have "list_all (\<lambda>d. \<not> isLineTerminator d) ds"
    using assms by (induction ds) (auto simp: digit_not_terminator)
  then have "takeWhile (\<lambda>d. \<not> isLineTerminator d) ds = ds"
    by (rule takeWhile_all)
  then show ?thesis by (simp add: js_def)
qed

lemma bitLength_le: "n < 2 ^ k \<Longrightarrow> bitLength n \<le> k"
proof (induction k arbitrary: n)
  case 0
  then show ?case by (simp add: bitLength.simps)
next
  case (Suc k)
  then have "n div 2 < 2 ^ k" by simp
  then have "bitLength (n div 2) \<le> k" by (rule Suc.IH)
  then show ?case by (subst bitLength.simps) simp
qed

lemma bitLength_gt: "2 ^ k \<le> n \<Longrightarrow> k < bitLength n"
proof (induction k arbitrary: n)
  case 0
  then show ?case by (subst bitLength.simps) simp
next
  case (Suc k)
  then have "2 ^ k \<le> n div 2" by simp
  then have "k < bitLength (n div 2)" by (rule Suc.IH)
  moreover have "n \<noteq> 0"
  proof
    assume "n = 0"
    with Suc.prems show False by simp
  qed
  ultimately show ?case by (subst bitLength.simps) simp
qed

lemma bitLength_eq: "2 ^ k \<le> n \<Longrightarrow> n < 2 ^ Suc k \<Longrightarrow> bitLength n = Suc k"
  using bitLength_le [of n "Suc k"] bitLength_gt [of k n] by simp

lemma roundToDouble_exact:
  assumes "n \<le> 2 ^ 53"
  shows "roundToDouble n = Some n"
proof (cases "n = 2 ^ 53")
  case True
  have b: "bitLength n = Suc 53"
    by (rule bitLength_eq) (simp_all add: True)
  show ?thesis
    unfolding roundToDouble_def b by (simp add: True Let_def)
next
  case False
  then have lt: "n < 2 ^ 53" using assms by simp
  then have "bitLength n \<le> 53" by (rule bitLength_le)
  then have e: "bitLength n - 53 = 0" by simp
  have "n < 2 ^ 1024"
  proof -
    have "(2::nat) ^ 53 \<le> 2 ^ 1024" by (rule power_increasing) simp_all
    with lt show ?thesis by simp
  qed
  then show ?thesis
    unfolding roundToDouble_def e by (simp add: Let_def)
qed

lemma parseInt10_digits:
  assumes "ds \<noteq> []" "list_all isDigit ds" "decimalValue ds \<le> 2 ^ 53"
  shows "parseInt10 ds = Finite (int (decimalValue ds))"
proof -
  obtain c r where ds: "ds = c # r" using assms(1) by (cases ds) auto
  with assms(2) have c: "isDigit c" by simp
  have dw: "dropWhile isWhiteSpace ds = ds"
    using c ds by (simp add: digit_not_space)
  have tw: "takeWhile isDigit ds = ds"
    using assms(2) by (rule takeWhile_all)
  have sgn: "(case ds of [] \<Rightarrow> False | c # r \<Rightarrow> c = 45) = False"
    using digit_not_sign [OF c] by (simp add: ds)
  have rest: "(case ds of [] \<Rightarrow> [] | c # r \<Rightarrow> if c = 43 \<or> c = 45 then r else ds) = ds"
    using digit_not_sign [OF c] by (simp add: ds)
  have rd: "roundToDouble (decimalValue ds) = Some (decimalValue ds)"
    using assms(3) by (rule roundToDouble_exact)
  show ?thesis
    unfolding parseInt10_def Let_def dw sgn rest tw
    using assms(1) by (simp add: digitsToNat_decimalValue rd)
qed

lemma nodeIdRegex_None:
  "(\<nexists>pre post. name = pre @ js ''Node_'' @ post) \<Longrightarrow> nodeIdRegex name = None"
proof (induction name)
  case Nil
  show ?case by simp
next
  case (Cons c cs)
  have no_start: "\<not> startsWith (js ''Node_'') (c # cs)"
  proof
    assume s: "startsWith (js ''Node_'') (c # cs)"
    have "\<And>p s. startsWith p s \<Longrightarrow> \<exists>post. s = p @ post"
    proof -
      fix p s show "startsWith p s \<Longrightarrow> \<exists>post. s = p @ post"
        by (induction p s rule: startsWith.induct) auto
    qed
    from this [OF s] obtain post where "c # cs = js ''Node_'' @ post" by blast
    then have "c # cs = [] @ js ''Node_'' @ post" by simp
    with Cons.prems show False by blast
  qed
  have "\<nexists>pre post. cs = pre @ js ''Node_'' @ post"
  proof
    assume "\<exists>pre post. cs = pre @ js ''Node_'' @ post"
    then obtain pre post where "cs = pre @ js ''Node_'' @ post" by blast
    then have "c # cs = (c # pre) @ js ''Node_'' @ post" by simp
    with Cons.prems show False by blast
  qed
  with Cons.IH no_start show ?case by simp
qed

subsection \<open>Joints\<close>

lemma stepDegrees_ge: "stepDegrees options \<ge> 10"
  by (simp add: stepDegrees_def Geometry_clamp_def Let_def)

lemma length_chamferPoints: "length (chamferPoints L a theta n) = nat n"
  by (simp add: chamferPoints_def Let_def)

lemma nth_chamferPoints:
  "i < nat n \<Longrightarrow> chamferPoints L a theta n ! i =
     fractionAndRadialFractionToPoint L a ((1 + 2 * real i) / (2 * real_of_int n))
       (1 / cos (radians theta / (2 * real_of_int n)))"
  by (simp add: chamferPoints_def Let_def)

lemma sqrt25: "sqrt 25 = 5"
proof -
  have "sqrt ((5::real)\<^sup>2) = 5" by simp
  then show ?thesis by simp
qed

lemma ex_arc: "constructArc planarLib (Ray3d (2, - 1, 0) (2, 0, 0)) (Some (2, 0, 0)) (Ray3d (5, 4, 0) (0, 2, 0)) = None"
  by (simp add: constructArc_def planarLib_def sameCoordinate_def smallMetricDistance_def sqrt25)

lemma ex_theta: "signedAngleXY (2, 0, 0) (0, 2, 0) = Angle (pi / 2) 90"
  by (simp add: Let_def)

lemma ex_rays: "rayRayXY (Ray3d (2, - 1, 0) (2, 0, 0)) (Ray3d (5, 4, 0) (0, 2, 0)) =
   CurveLocationDetailPair Intersection (CurveLocationDetail (3/2) (5, - 1, 0)) (CurveLocationDetail (- 5/2) (5, - 1, 0))"
  by (simp add: Let_def)

lemma flexure_annotateExtension:
  "curve0 j = Some c0 \<Longrightarrow> curve1 j = Some c1 \<Longrightarrow>
   flexure (annotateExtension L options j) = Extend \<or> flexure (annotateExtension L options j) = Gap"
  by (simp add: annotateExtension_def fillGap_def Let_def split: option.splits)

lemma isLineSegment3d_seg: "isLineSegment3d (seg a b ba bb)"
  by (simp add: isLineSegment3d_def seg_def)

lemma trim_rays:
  "closestApproachRay3dRay3d planarLib
     (fractionToPointAndDerivative planarLib (seg (0, 2, 0) (1, 2, 0) (0, 0, 0) (1, 0, 0)) 0)
     (fractionToPointAndDerivative planarLib (seg (- 1, 0, 0) (- 1, 1, 0) (1, 0, 0) (1, 1, 0)) 0)
   = CurveLocationDetailPair Intersection (CurveLocationDetail (- 1) (- 1, 2, 0)) (CurveLocationDetail 2 (- 1, 2, 0))"
  by (simp add: planarLib_def fractionToPointAndDerivative_def seg_def Let_def)

lemma trim_apart:
  "\<not> pointAlmostEqual planarLib (endPoint planarLib (seg (0, 2, 0) (1, 2, 0) (0, 0, 0) (1, 0, 0)))
        (startPoint planarLib (seg (- 1, 0, 0) (- 1, 1, 0) (1, 0, 0) (1, 1, 0)))"
  by (simp add: planarLib_def endPoint_def startPoint_def fractionToPoint_def
        fractionToPointAndDerivative_def seg_def sameCoordinate_def smallMetricDistance_def)

subsection \<open>Streams, headers and the feature table\<close>

lemma andThen_simps [simp]: "andThen (Inl e) f = Inl e" "andThen (Inr x) f = f x"
  by (simp_all add: andThen_def)




lemma readUint32_inside:
  "curPos s + 4 \<le> length (arrayBuffer s) \<Longrightarrow>
     readUint32 p s = Inr (uint32At (arrayBuffer s) (curPos s), s\<lparr>curPos := curPos s + 4\<rparr>)"
  by (simp add: readUint32_def throwsAt_def)



lemma FeatureTableHeader_readFrom_eq:
  "FeatureTableHeader_readFrom p s =
     (if throwsAt p s 12 then Inl RangeError
      else Inr (if curPos s + 12 > length (arrayBuffer s) then None
                else Some \<lparr>ftLength = uint32At (arrayBuffer s) (curPos s),
                           ftCount = uint32At (arrayBuffer s) (curPos s + 4),
                           numSubCategories = uint32At (arrayBuffer s) (curPos s + 8)\<rparr>,
                s\<lparr>curPos := curPos s + 12\<rparr>))"
  by (cases p)
     (auto simp: FeatureTableHeader_readFrom_def readUint32_def throwsAt_def isPastTheEnd_def
        Let_def add.commute)




text \<open>The result of \<open>parseImdlDocument\<close> once the feature-table header and the glTF header are known.\<close>

lemma parseImdlDocument_stages:
  assumes hdr: "readImdlHeader D t = Inr (H, t1)" "isValid H" "isReadableVersion H"
    and ft: "FeatureTableHeader_readFrom p t1 = Inr (Some fth, s2)"
    and s2: "arrayBuffer s2 = arrayBuffer t1"
  shows "parseImdlDocument p D t =
     (case GltfHeader_new p (t1\<lparr>curPos := curPos t1 + ftLength fth\<rparr>) of
        Inl e \<Rightarrow> Inl e
      | Inr (gh, s4) \<Rightarrow>
          if \<not> GltfHeader_isValid gh then Inr (Inl InvalidTileData)
          else
            (case nextBytes p (t1\<lparr>curPos := scenePosition gh\<rparr>) (sceneStrLength gh) of
               Inl e \<Rightarrow> Inl e
             | Inr (sceneStrData, s6) \<Rightarrow>
                 (case utf8ToString D sceneStrData of
                    None \<Rightarrow> Inr (Inl InvalidScene)
                  | Some sceneStr \<Rightarrow>
                      if sceneStr = [] then Inr (Inl InvalidScene)
                      else
                        (case parseScene p D sceneStr gh
                                \<lparr>startPos = curPos t1, multiModel = multiModelFeatureTable H\<rparr> s6 of
                           Inl e \<Rightarrow> Inr (Inl InvalidTileData)
                         | Inr r \<Rightarrow> Inr r))))"
proof -
  have s2': "s2\<lparr>curPos := c\<rparr> = t1\<lparr>curPos := c\<rparr>" for c
    using s2 by (cases s2, cases t1) simp
  have g4: "\<exists>c. s4 = t1\<lparr>curPos := c\<rparr>"
    if "GltfHeader_new p (t1\<lparr>curPos := c0\<rparr>) = Inr (gh, s4)" for gh s4 c0
    using that
    by (auto simp: GltfHeader_new_def readUint32_def andThen_def Let_def
          split: if_splits sum.splits prod.splits)
  show ?thesis
  proof (cases "GltfHeader_new p (t1\<lparr>curPos := curPos t1 + ftLength fth\<rparr>)")
    case (Inl e)
    then show ?thesis
      using hdr ft by (simp add: parseImdlDocument_def Let_def s2')
  next
    case (Inr r)
    obtain gh s4 where r: "r = (gh, s4)" by (cases r)
    from g4 Inr r obtain c where c: "s4 = t1\<lparr>curPos := c\<rparr>" by blast
    show ?thesis
      using hdr ft Inr r
      by (simp add: parseImdlDocument_def Let_def s2' c andThen_def
            split: sum.splits option.splits prod.splits)
  qed
qed

lemma getProp_defined: "v \<noteq> JNull \<Longrightarrow> \<exists>x. getProp v name = Inr x"
  by (cases v) simp_all

lemma exampleHeader_tileBytes:
  "n < 256 \<Longrightarrow> v < 256 \<Longrightarrow> exampleHeader p \<lparr>arrayBuffer = tileBytes n v, curPos = 0\<rparr> =
     Inr (\<lparr>isValid = True, isReadableVersion = True, multiModelFeatureTable = False\<rparr>,
          \<lparr>arrayBuffer = tileBytes n v, curPos = 12\<rparr>)"
  by (simp add: exampleHeader_def readUint32_def throwsAt_def uint32At_def byteAt_def tileBytes_def)

lemma exampleHeader_oddLength:
  "exampleHeader p oddLengthTile =
     Inr (\<lparr>isValid = True, isReadableVersion = True, multiModelFeatureTable = False\<rparr>,
          oddLengthTile\<lparr>curPos := 12\<rparr>)"
  by (simp add: exampleHeader_def readUint32_def throwsAt_def uint32At_def byteAt_def
        oddLengthTile_def oddLengthBytes_def)

lemma exampleHeader_brokenScene:
  "exampleHeader p brokenSceneTile =
     Inr (\<lparr>isValid = True, isReadableVersion = True, multiModelFeatureTable = False\<rparr>,
          brokenSceneTile\<lparr>curPos := 12\<rparr>)"
  by (simp add: exampleHeader_def readUint32_def throwsAt_def uint32At_def byteAt_def
        brokenSceneTile_def brokenSceneBytes_def)

lemma exampleHeader_truncated:
  "exampleHeader p truncatedTile =
     Inr (\<lparr>isValid = True, isReadableVersion = True, multiModelFeatureTable = False\<rparr>,
          truncatedTile\<lparr>curPos := 12\<rparr>)"
  by (simp add: exampleHeader_def readUint32_def throwsAt_def uint32At_def byteAt_def
        truncatedTile_def truncatedBytes_def)

lemma tileBytes_words:
  "n < 256 \<Longrightarrow> uint32At (tileBytes n v) 12 = n"
  "v < 256 \<Longrightarrow> uint32At (tileBytes n v) 32 = v"
  "uint32At (tileBytes n v) 28 = TileFormat_Gltf"
  "uint32At (tileBytes n v) 40 = 13"
  "uint32At (tileBytes n v) 44 = 0"
  "length (tileBytes n v) = 64"
  by (simp_all add: uint32At_def byteAt_def tileBytes_def TileFormat_Gltf_def unat_of_nat)



lemma plain_imdlDoc: "imdlDoc (JObject [(js ''meshes'', JObject [])]) = plainDocument"
  by (simp add: imdlDoc_def plainDocument_def objectOrEmpty_def js_def Let_def)






lemma parse_malformed:
  assumes bad: "featureTableMalformed s (startPos info)"
    and how: "p = Lenient \<or> lengthMisaligned s (startPos info)"
  shows "parse p D doc bd info s = Inr (Inl InvalidFeatureTable)"
proof -
  have n: "\<And>l::nat. 12 \<le> l \<Longrightarrow> l mod 4 = 0 \<Longrightarrow> 12 + 4 * nat ((int l - 12) div 4) = l"
  proof -
    fix l :: nat assume l: "12 \<le> l" "l mod 4 = 0"
    then obtain k where k: "l = 4 * k" by (auto elim: dvdE simp: mod_eq_0_iff_dvd)
    with l have "3 \<le> k" by simp
    then have "(int l - 12) div 4 = int k - 3" using k by simp
    then show "12 + 4 * nat ((int l - 12) div 4) = l" using k \<open>3 \<le> k\<close> by simp
  qed
  have nn: "\<And>l::nat. 12 \<le> l \<Longrightarrow> \<not> (int l - 12) div 4 < 0"
    by linarith
  have "map_sum id fst (parseFeatureTable p doc bd info s) = Inr None"
    using bad how n nn
    unfolding parseFeatureTable_def featureTableMalformed_def headerUnreadable_def
      lengthMisaligned_def arrayOverruns_def FeatureTableHeader_readFrom_eq
    by (auto simp: Let_def nextUint32s_def isPastTheEnd_def throwsAt_def
          FeatureTableHeader_sizeInBytes_def add.assoc split: if_splits)
  then show ?thesis
    by (auto simp: parse_def split: sum.splits option.splits prod.splits)
qed

lemma GltfHeader_new_beyond:
  assumes "length (arrayBuffer s) < curPos s"
  shows "GltfHeader_new p s = (if p = Strict then Inl RangeError
           else Inr (\<lparr>format = TileFormat_Unknown, version = 0, gltfLength = 0, scenePosition = 0,
                       sceneStrLength = 0, binaryPosition = 0\<rparr>, s\<lparr>curPos := curPos s + 20\<rparr>))"
  using assms
  by (cases p)
     (simp_all add: GltfHeader_new_def readUint32_def throwsAt_def uint32At_def byteAt_def Let_def
        invalidate_def TileFormat_Unknown_def GltfVersions_Version1_def GltfVersions_Version2_def
        add.commute)

lemma oddLength_words: "uint32At oddLengthBytes 12 = 14" "length oddLengthBytes = 62"
  by (simp_all add: uint32At_def byteAt_def oddLengthBytes_def)

lemma oddLength_gltf:
  "GltfHeader_new p \<lparr>arrayBuffer = oddLengthBytes, curPos = 26\<rparr> =
     Inr (\<lparr>format = TileFormat_Gltf, version = 1, gltfLength = 0, scenePosition = 46,
           sceneStrLength = 13, binaryPosition = 59\<rparr>, \<lparr>arrayBuffer = oddLengthBytes, curPos = 46\<rparr>)"
  by (simp add: GltfHeader_new_def readUint32_def throwsAt_def Let_def oddLengthBytes_def
        uint32At_def byteAt_def TileFormat_Gltf_def GltfVersions_Version1_def
        GltfVersions_Version2_def GltfVersions_Gltf1SceneFormat_def)

lemma oddLength_scene:
  "map unat (take 13 (drop 46 oddLengthBytes)) = js ''{\"meshes\":{}}''"
  by (simp add: oddLengthBytes_def js_def)

lemma brokenScene_words: "uint32At brokenSceneBytes 12 = 13" "length brokenSceneBytes = 49"
  by (simp_all add: uint32At_def byteAt_def brokenSceneBytes_def)

lemma brokenScene_gltf:
  "GltfHeader_new p \<lparr>arrayBuffer = brokenSceneBytes, curPos = 25\<rparr> =
     Inr (\<lparr>format = TileFormat_Gltf, version = 1, gltfLength = 0, scenePosition = 45,
           sceneStrLength = 1, binaryPosition = 46\<rparr>, \<lparr>arrayBuffer = brokenSceneBytes, curPos = 45\<rparr>)"
  by (simp add: GltfHeader_new_def readUint32_def throwsAt_def Let_def brokenSceneBytes_def
        uint32At_def byteAt_def TileFormat_Gltf_def GltfVersions_Version1_def
        GltfVersions_Version2_def GltfVersions_Gltf1SceneFormat_def)

lemma brokenScene_result:
  "parseImdlDocument p (exampleDecoder p) brokenSceneTile = Inr (Inl InvalidTileData)"
proof -
  have rf: "FeatureTableHeader_readFrom p \<lparr>arrayBuffer = brokenSceneBytes, curPos = 12\<rparr> =
      Inr (Some \<lparr>ftLength = 13, ftCount = 1, numSubCategories = 1\<rparr>,
           \<lparr>arrayBuffer = brokenSceneBytes, curPos = 24\<rparr>)"
    by (simp add: FeatureTableHeader_readFrom_eq throwsAt_def brokenSceneBytes_def
          uint32At_def byteAt_def)
  have sc: "take (Suc 0) (drop 45 brokenSceneBytes) = [123]"
    by (simp add: brokenSceneBytes_def)
  have js: "exampleJson [123] = Inl SyntaxError"
    by (simp add: exampleJson_def js_def)
  have h: "exampleHeader p \<lparr>arrayBuffer = brokenSceneBytes, curPos = 0\<rparr> =
     Inr (\<lparr>isValid = True, isReadableVersion = True, multiModelFeatureTable = False\<rparr>,
          \<lparr>arrayBuffer = brokenSceneBytes, curPos = 12\<rparr>)"
    using exampleHeader_brokenScene [of p] by (simp add: brokenSceneTile_def)
  show ?thesis
    unfolding parseImdlDocument_def brokenSceneTile_def
    by (simp add: exampleDecoder_def h rf brokenScene_gltf nextBytes_def throwsAt_def sc Let_def
          GltfHeader_isValid_def parseScene_def js brokenScene_words)
qed

lemma overrun_result:
  "parseImdlDocument p (exampleDecoder p) overrunTile
     = (if p = Strict then Inl RangeError else Inr (Inl InvalidTileData))"
proof -
  have rf: "FeatureTableHeader_readFrom p \<lparr>arrayBuffer = tileBytes 200 v, curPos = 12\<rparr> =
      Inr (Some \<lparr>ftLength = 200, ftCount = 1, numSubCategories = 1\<rparr>,
           \<lparr>arrayBuffer = tileBytes 200 v, curPos = 24\<rparr>)" for v
    by (simp add: FeatureTableHeader_readFrom_eq throwsAt_def tileBytes_def uint32At_def byteAt_def)
  have gh: "GltfHeader_new p \<lparr>arrayBuffer = tileBytes 200 v, curPos = 212\<rparr> =
      (if p = Strict then Inl RangeError
       else Inr (\<lparr>format = TileFormat_Unknown, version = 0, gltfLength = 0, scenePosition = 0,
                   sceneStrLength = 0, binaryPosition = 0\<rparr>,
                 \<lparr>arrayBuffer = tileBytes 200 v, curPos = 212\<rparr>\<lparr>curPos := 212 + 20\<rparr>))" for v
    using GltfHeader_new_beyond [of "\<lparr>arrayBuffer = tileBytes 200 v, curPos = 212\<rparr>" p]
    by (simp add: tileBytes_words)
  show ?thesis
    unfolding parseImdlDocument_def overrunTile_def
    by (simp add: exampleDecoder_def exampleHeader_tileBytes rf gh Let_def GltfHeader_isValid_def
          TileFormat_Unknown_def TileFormat_Gltf_def)
qed

subsection \<open>The joint chain\<close>

lemma sqrt100: "sqrt 100 = 10"
proof -
  have "sqrt ((10::real)\<^sup>2) = 10" by simp
  then show ?thesis by simp
qed

lemma mkJoint_sel:
  "flexure (mkJoint fl c0 f0 c1 f1 jc sp nx pv) = fl"
  "curve0 (mkJoint fl c0 f0 c1 f1 jc sp nx pv) = c0"
  "fraction0 (mkJoint fl c0 f0 c1 f1 jc sp nx pv) = f0"
  "curve1 (mkJoint fl c0 f0 c1 f1 jc sp nx pv) = c1"
  "fraction1 (mkJoint fl c0 f0 c1 f1 jc sp nx pv) = f1"
  "jointCurve (mkJoint fl c0 f0 c1 f1 jc sp nx pv) = jc"
  "swingPoint (mkJoint fl c0 f0 c1 f1 jc sp nx pv) = sp"
  "nextJoint (mkJoint fl c0 f0 c1 f1 jc sp nx pv) = nx"
  "previousJoint (mkJoint fl c0 f0 c1 f1 jc sp nx pv) = pv"
  by (simp_all add: mkJoint_def)

lemma mkJoint_upd:
  "(mkJoint fl c0 f0 c1 f1 jc sp nx pv)\<lparr>flexure := fl'\<rparr> = mkJoint fl' c0 f0 c1 f1 jc sp nx pv"
  "(mkJoint fl c0 f0 c1 f1 jc sp nx pv)\<lparr>curve0 := c0'\<rparr> = mkJoint fl c0' f0 c1 f1 jc sp nx pv"
  "(mkJoint fl c0 f0 c1 f1 jc sp nx pv)\<lparr>fraction0 := f0'\<rparr> = mkJoint fl c0 f0' c1 f1 jc sp nx pv"
  "(mkJoint fl c0 f0 c1 f1 jc sp nx pv)\<lparr>curve1 := c1'\<rparr> = mkJoint fl c0 f0 c1' f1 jc sp nx pv"
  "(mkJoint fl c0 f0 c1 f1 jc sp nx pv)\<lparr>fraction1 := f1'\<rparr> = mkJoint fl c0 f0 c1 f1' jc sp nx pv"
  "(mkJoint fl c0 f0 c1 f1 jc sp nx pv)\<lparr>jointCurve := jc'\<rparr> = mkJoint fl c0 f0 c1 f1 jc' sp nx pv"
  "(mkJoint fl c0 f0 c1 f1 jc sp nx pv)\<lparr>nextJoint := nx'\<rparr> = mkJoint fl c0 f0 c1 f1 jc sp nx' pv"
  "(mkJoint fl c0 f0 c1 f1 jc sp nx pv)\<lparr>previousJoint := pv'\<rparr> = mkJoint fl c0 f0 c1 f1 jc sp nx pv'"
  by (simp_all add: mkJoint_def)

lemma mkJoint_eq:
  "(mkJoint fl c0 f0 c1 f1 jc sp nx pv = mkJoint fl' c0' f0' c1' f1' jc' sp' nx' pv') =
     (fl = fl' \<and> c0 = c0' \<and> f0 = f0' \<and> c1 = c1' \<and> f1 = f1' \<and> jc = jc' \<and> sp = sp' \<and> nx = nx' \<and> pv = pv')"
  by (simp add: mkJoint_def)

lemma newJoint_mk: "newJoint c0 c1 sp = mkJoint Unknown c0 None c1 None None sp None None"
  by (simp add: newJoint_def mkJoint_def)

lemma curve_update_same:
  "curve0 (r::Joint) = v \<Longrightarrow> r\<lparr>curve0 := v\<rparr> = r"
  "curve1 (r::Joint) = w \<Longrightarrow> r\<lparr>curve1 := w\<rparr> = r"
  by simp_all

lemma link_distinct:
  assumes "a \<noteq> b" "a < length h" "b < length h"
  shows "link h a (Some b) =
     h[a := (h ! a)\<lparr>nextJoint := Some b,
                     curve1 := (if curve1 (h ! a) = None then curve0 (h ! b) else curve1 (h ! a))\<rparr>,
       b := (h ! b)\<lparr>previousJoint := Some a,
                     curve0 := (if curve0 (h ! b) = None then curve1 (h ! a) else curve0 (h ! b))\<rparr>]"
proof (cases "curve1 (h ! a) = None")
  case a0: True
  show ?thesis
  proof (cases "curve0 (h ! b) = None")
    case True
    then show ?thesis
      using assms a0 by (simp add: link_def Let_def curve_update_same)
  next
    case False
    then show ?thesis
      using assms a0 by (auto simp: link_def Let_def curve_update_same list_update_swap [of a b])
  qed
next
  case a1: False
  show ?thesis
  proof (cases "curve0 (h ! b) = None")
    case True
    then show ?thesis
      using assms a1 by (auto simp: link_def Let_def curve_update_same)
  next
    case False
    then show ?thesis
      using assms a1 by (auto simp: link_def Let_def curve_update_same)
  qed
qed

lemma link_None: "link h a None = h[a := (h ! a)\<lparr>nextJoint := None\<rparr>]"
  by (simp add: link_def)

lemma hook_fragments:
  "createOffsetSegment planarLib (0, 0, 0) (10, 0, 0) 3 = Some fragE0"
  "createOffsetSegment planarLib (10, 0, 0) (10, 1, 0) 3 = Some fragS1"
  "createOffsetSegment planarLib (10, 1, 0) (9, 1, 0) 3 = Some fragS2"
  "createOffsetSegment planarLib (9, 1, 0) (9, 11, 0) 3 = Some fragE1"
  by (simp_all add: createOffsetSegment_def planarLib_def sqrt100 smallMetricDistance_def
        fragE0_def fragS1_def fragS2_def fragE1_def seg_def)

lemma hook_build: "buildChain planarLib hookPoints False (defaultOptions 3) = (hookBuilt, 0)"
proof -
  have d: "leftOffsetDistance (defaultOptions 3) = 3" by (simp add: defaultOptions_def)
  show ?thesis
    unfolding buildChain_def hookPoints_def d
    by (simp add: hook_fragments alloc_def link_distinct newJoint_mk mkJoint_sel mkJoint_upd
        hookBuilt_def Let_def)
qed


lemma annotate_cap_start:
  "annotateJointMode L options (mkJoint fl None f0 (Some c1) f1 jc sp nx pv)
     = mkJoint Cap None f0 (Some c1) (Some 0) jc sp nx pv"
  by (simp add: annotateJointMode_def mkJoint_def)

lemma annotate_cap_end:
  "annotateJointMode L options (mkJoint fl (Some c0) f0 None f1 jc sp nx pv)
     = mkJoint Cap (Some c0) (Some 1) None f1 jc sp nx pv"
  by (simp add: annotateJointMode_def mkJoint_def)

lemma seg_rays:
  "fractionToPointAndDerivative L (seg a b ba bb) f = Ray3d (interpolate a f b) (createStartEnd a b)"
  "endPoint L (seg a b ba bb) = interpolate a 1 b"
  "startPoint L (seg a b ba bb) = interpolate a 0 b"
  "fractionToPoint L (seg a b ba bb) f = interpolate a f b"
  "baseCurveEnd (seg a b ba bb) = Some bb"
  by (simp_all add: fractionToPointAndDerivative_def seg_def endPoint_def startPoint_def fractionToPoint_def)

lemma planarLib_sel:
  "pointAlmostEqual planarLib = almostEqualPoint"
  "isSameCoordinate planarLib = sameCoordinate"
  "closestApproachRay3dRay3d planarLib = rayRayXY"
  "angleToXY planarLib = signedAngleXY"
  "emitStrokes planarLib = strokeSegments"
  "clonePartialCurve planarLib = partialSegment"
  "normalize planarLib = normalizeVector"
  by (simp_all add: planarLib_def)

lemma annotate_E0_S1:
  "annotateJointMode planarLib options (mkJoint fl (Some fragE0) f0 (Some fragS1) f1 jc sp nx pv)
     = mkJoint Trim (Some fragE0) (Some (7 / 10)) (Some fragS1) (Some 3) jc sp nx pv"
  unfolding annotateJointMode_def fragE0_def fragS1_def
  by (simp add: mkJoint_def seg_rays planarLib_sel isLineSegment3d_seg sameCoordinate_def
        smallMetricDistance_def Let_def)

lemma annotate_S1_S2:
  "annotateJointMode planarLib options (mkJoint fl (Some fragS1) f0 (Some fragS2) f1 jc sp nx pv)
     = mkJoint Trim (Some fragS1) (Some (- 2)) (Some fragS2) (Some 3) jc sp nx pv"
  unfolding annotateJointMode_def fragS1_def fragS2_def
  by (simp add: mkJoint_def seg_rays planarLib_sel isLineSegment3d_seg sameCoordinate_def
        smallMetricDistance_def Let_def)

lemma annotate_E0_E1:
  "annotateJointMode planarLib options (mkJoint fl (Some fragE0) f0 (Some fragE1) f1 jc sp nx pv)
     = mkJoint Trim (Some fragE0) (Some (3 / 5)) (Some fragE1) (Some (1 / 5)) jc sp nx pv"
  unfolding annotateJointMode_def fragE0_def fragE1_def
  by (simp add: mkJoint_def seg_rays planarLib_sel isLineSegment3d_seg sameCoordinate_def
        smallMetricDistance_def Let_def)

lemma annotate_S1_E1:
  "annotateJointMode planarLib options (mkJoint fl (Some fragS1) f0 (Some fragE1) f1 jc sp nx pv)
     = mkJoint fl (Some fragS1) f0 (Some fragE1) f1 jc sp nx pv"
  unfolding annotateJointMode_def fragS1_def fragE1_def
  by (simp add: mkJoint_def seg_rays planarLib_sel isLineSegment3d_seg sameCoordinate_def
        smallMetricDistance_def Let_def)

lemma annotate_S2_E1:
  "annotateJointMode planarLib (defaultOptions 3) (mkJoint fl (Some fragS2) f0 (Some fragE1) f1 jc sp nx pv)
     = mkJoint Extend (Some fragS2) (Some 1) (Some fragE1) (Some 0) (Some hookCorner) sp nx pv"
proof -
  have n: "numChamferPoints (defaultOptions 3) (Angle (- (pi / 2)) (- 90)) = 1"
    by (simp add: numChamferPoints_def stepDegrees_def Geometry_clamp_def defaultOptions_def)
  have na: "\<not> needArc (defaultOptions 3) (Angle (- (pi / 2)) (- 90))"
    by (simp add: needArc_def defaultOptions_def)
  show ?thesis
    unfolding annotateJointMode_def annotateExtension_def fragS2_def fragE1_def
    by (simp add: mkJoint_def seg_rays planarLib_sel isLineSegment3d_seg sameCoordinate_def
          smallMetricDistance_def Let_def n na hookCorner_def)
qed

lemmas hook_annotate = annotate_cap_start annotate_cap_end annotate_E0_S1 annotate_S1_S2
  annotate_E0_E1 annotate_S1_E1 annotate_S2_E1

lemma hook_annotated:
  "annotateChain planarLib 0 (defaultOptions 3) 5 hookBuilt = hookAnnotated"
  unfolding annotateChain_def visitJointsOnChain_def hookBuilt_def hookAnnotated_def
  by (simp add: annotateAt_def hook_annotate mkJoint_sel Let_def)


lemma hookAnnotated_nth:
  "hookAnnotated ! 0 = mkJoint Cap None None (Some fragE0) (Some 0) None (Some (0, 0, 0)) (Some 1) None"
  "hookAnnotated ! 1 = mkJoint Trim (Some fragE0) (Some (7 / 10)) (Some fragS1) (Some 3) None (Some (10, 0, 0)) (Some 2) (Some 0)"
  "hookAnnotated ! 2 = mkJoint Trim (Some fragS1) (Some (- 2)) (Some fragS2) (Some 3) None (Some (10, 1, 0)) (Some 3) (Some 1)"
  "hookAnnotated ! 3 = mkJoint Extend (Some fragS2) (Some 1) (Some fragE1) (Some 0) (Some hookCorner) (Some (9, 1, 0)) (Some 4) (Some 2)"
  "hookAnnotated ! 4 = mkJoint Cap (Some fragE1) (Some 1) None None None (Some (9, 11, 0)) None (Some 3)"
  by (simp_all add: hookAnnotated_def)

lemma hookDoubleCut_nth:
  "hookDoubleCut ! 0 = mkJoint Cap None None (Some fragE0) (Some 0) None (Some (0, 0, 0)) (Some 5) None"
  "hookDoubleCut ! 1 = mkJoint Trim (Some fragE0) (Some (7 / 10)) (Some fragS1) (Some 3) None (Some (10, 0, 0)) (Some 2) (Some 0)"
  "hookDoubleCut ! 2 = mkJoint Trim (Some fragS1) (Some (- 2)) (Some fragS2) (Some 3) None (Some (10, 1, 0)) (Some 3) (Some 1)"
  "hookDoubleCut ! 3 = mkJoint Extend (Some fragS2) (Some 1) (Some fragE1) (Some 0) (Some hookCorner) (Some (9, 1, 0)) (Some 4) (Some 2)"
  "hookDoubleCut ! 4 = mkJoint Cap (Some fragE1) (Some 1) None None None (Some (9, 11, 0)) None (Some 5)"
  "hookDoubleCut ! 5 = mkJoint Trim (Some fragE0) (Some (3 / 5)) (Some fragE1) (Some (1 / 5)) None None (Some 4) (Some 0)"
  by (simp_all add: hookDoubleCut_def)

lemma hookRemoved_nth:
  "hookRemoved ! 0 = mkJoint Cap None None (Some fragE0) (Some 0) None (Some (0, 0, 0)) (Some 5) None"
  "hookRemoved ! 4 = mkJoint Cap (Some fragE1) (Some 1) None None None (Some (9, 11, 0)) None (Some 6)"
  "hookRemoved ! 5 = mkJoint Trim (Some fragE0) (Some (3 / 5)) (Some fragE1) (Some (1 / 5)) None None (Some 4) (Some 0)"
  by (simp_all add: hookRemoved_def)

lemma hook_splice_double:
  "spliceJoint planarLib (defaultOptions 3) hookAnnotated 1 3 = (hookDoubleCut, 5)"
  unfolding spliceJoint_def hookAnnotated_def hookDoubleCut_def
  by (simp add: alloc_def newJoint_mk mkJoint_sel mkJoint_upd link_distinct annotateAt_def
        hook_annotate Let_def)

lemma hook_splice_single:
  "spliceJoint planarLib (defaultOptions 3) hookDoubleCut 2 3 = (hookRemoved, 6)"
  unfolding spliceJoint_def hookRemoved_def hookDoubleCut_def
  by (simp add: alloc_def newJoint_mk mkJoint_sel mkJoint_upd link_distinct annotateAt_def
        hook_annotate Let_def)

lemma hook_removed:
  "removeDegeneratePrimitives planarLib hookAnnotated 0 (defaultOptions 3) 5 = (hookRemoved, 0, 1, 3)"
proof -
  have s1: "removeLoop planarLib (defaultOptions 3) 5 hookAnnotated 0 (Some 0) 0
      = removeLoop planarLib (defaultOptions 3) 5 hookAnnotated 0 (Some 1) (0 + 1)"
    by (subst removeLoop.simps) (simp add: hookAnnotated_nth mkJoint_sel Let_def del: One_nat_def)
  have s2: "removeLoop planarLib (defaultOptions 3) 5 hookAnnotated 0 (Some 1) (0 + 1)
      = removeLoop planarLib (defaultOptions 3) 5 hookDoubleCut 0 (Some 2) (0 + 1 + 1)"
    by (subst removeLoop.simps)
       (simp add: hookAnnotated_nth hookDoubleCut_nth hook_splice_double mkJoint_sel eliminateF_def
          eliminateG_def Let_def del: One_nat_def)
  have s3: "removeLoop planarLib (defaultOptions 3) 5 hookDoubleCut 0 (Some 2) (0 + 1 + 1)
      = (hookRemoved, 0, 1, 3)"
    by (subst removeLoop.simps)
       (simp add: hookDoubleCut_nth hook_splice_single mkJoint_sel eliminateF_def
          eliminateG_def Let_def del: One_nat_def)
  show ?thesis
    by (simp only: removeDegeneratePrimitives_def s1 s2 s3)
qed


lemma hook_chains:
  "chainJoints hookAnnotated 0 = [0, 1, 2, 3, 4]"
  "chainJoints hookRemoved 0 = [0, 5, 4]"
  by (simp_all add: chainJoints_def hookAnnotated_def hookRemoved_def mkJoint_sel eval_nat_numeral)

lemma hook_second_pass:
  "removeDegeneratePrimitives planarLib hookRemoved 0 (defaultOptions 3) 5 = (hookRemoved, 0, 0, 3)"
proof -
  have s1: "removeLoop planarLib (defaultOptions 3) 5 hookRemoved 0 (Some 0) 0
      = removeLoop planarLib (defaultOptions 3) 5 hookRemoved 0 (Some 5) (0 + 1)"
    by (subst removeLoop.simps) (simp add: hookRemoved_nth mkJoint_sel Let_def del: One_nat_def)
  have s2: "removeLoop planarLib (defaultOptions 3) 5 hookRemoved 0 (Some 5) (0 + 1)
      = removeLoop planarLib (defaultOptions 3) 5 hookRemoved 0 (Some 4) (0 + 1 + 1)"
    by (subst removeLoop.simps) (simp add: hookRemoved_nth mkJoint_sel Let_def del: One_nat_def)
  have s3: "removeLoop planarLib (defaultOptions 3) 5 hookRemoved 0 (Some 4) (0 + 1 + 1)
      = removeLoop planarLib (defaultOptions 3) 5 hookRemoved 0 None (0 + 1 + 1 + 1)"
    by (subst removeLoop.simps) (simp add: hookRemoved_nth mkJoint_sel Let_def del: One_nat_def)
  have s4: "removeLoop planarLib (defaultOptions 3) 5 hookRemoved 0 None (0 + 1 + 1 + 1) = (hookRemoved, 0, 0, 3)"
    by (subst removeLoop.simps) simp
  show ?thesis
    by (simp only: removeDegeneratePrimitives_def s1 s2 s3 s4)
qed

lemma hook_passes:
  "passLoop planarLib (defaultOptions 3) 5 0 hookAnnotated 0 = (hookRemoved, 0, [1, 0])"
proof -
  have p1: "passLoop planarLib (defaultOptions 3) 5 1 hookRemoved 0 = (hookRemoved, 0, [0])"
    by (subst passLoop.simps) (simp add: hook_second_pass del: passLoop.simps One_nat_def)
  show ?thesis
    by (subst passLoop.simps) (simp add: hook_removed p1 del: One_nat_def passLoop.simps)
qed

lemma hook_partial:
  "partialSegment fragE0 0 (3 / 5) = Some (LineSegment3d_create (0, 3, 0) (6, 3, 0))"
  "partialSegment fragE1 (1 / 5) 1 = Some (LineSegment3d_create (6, 3, 0) (6, 11, 0))"
  by (simp_all add: partialSegment_def fragE0_def fragE1_def seg_def)

lemma stroke_created:
  "strokeSegments (LineSegment3d_create a b) dest = dest @ [a, b]"
  "startPoint L (LineSegment3d_create a b) = interpolate a 0 b"
  by (simp_all add: strokeSegments_def LineSegment3d_create_def startPoint_def fractionToPoint_def
        fractionToPointAndDerivative_def)

lemma hook_collect:
  "collectStrokesFromChain planarLib hookRemoved 0 [] 5 = [(0, 3, 0), (6, 3, 0), (6, 3, 0), (6, 11, 0)]"
proof -
  have c0: "collectJoint planarLib hookRemoved 0 [] = [(0, 3, 0), (6, 3, 0)]"
    by (simp add: collectJoint_def hookRemoved_nth mkJoint_sel nextJointFraction0_def addStrokes_def
          planarLib_sel hook_partial stroke_created addPoint_def
          sameCoordinate_def smallMetricDistance_def Let_def)
  have c5: "collectJoint planarLib hookRemoved 5 [(0, 3, 0), (6, 3, 0)]
      = [(0, 3, 0), (6, 3, 0), (6, 3, 0), (6, 11, 0)]"
    by (simp add: collectJoint_def hookRemoved_nth mkJoint_sel nextJointFraction0_def addStrokes_def
          planarLib_sel hook_partial stroke_created addPoint_def
          sameCoordinate_def smallMetricDistance_def Let_def)
  have c4: "collectJoint planarLib hookRemoved 4 [(0, 3, 0), (6, 3, 0), (6, 3, 0), (6, 11, 0)]
      = [(0, 3, 0), (6, 3, 0), (6, 3, 0), (6, 11, 0)]"
    by (simp add: collectJoint_def hookRemoved_nth mkJoint_sel addStrokes_def Let_def)
  show ?thesis
    unfolding collectStrokesFromChain_def visitJointsOnChain_def
    by (simp add: c0 c5 c4 hookRemoved_nth mkJoint_sel Let_def)
qed

lemma hook_strokes:
  "offsetStrokes planarLib hookPoints False (defaultOptions 3)
     = [(0, 3, 0), (6, 3, 0), (6, 3, 0), (6, 11, 0)]"
proof -
  have n: "length hookPoints = 5" by (simp add: hookPoints_def)
  show ?thesis
    unfolding offsetStrokes_def n
    by (simp add: hook_build hook_annotated hook_passes hook_collect del: passLoop.simps)
qed

lemma alloc_eq: "alloc h j = (h @ [j], length h)"
  by (simp add: alloc_def)

lemma linkFragments_invariant:
  "linkFragments L d ps h previousJ fragment0 = (h', previousJ', fragment') \<Longrightarrow>
   previousJ < length h \<Longrightarrow> previousJoint (h ! 0) = None \<Longrightarrow>
   previousJ' < length h' \<and> previousJoint (h' ! 0) = None"
proof (induction L d ps h previousJ fragment0 rule: linkFragments.induct)
  case (1 L d p q rest h previousJ fragment0)
  let ?nj = "length h"
  let ?h1 = "h @ [newJoint fragment0 (createOffsetSegment L p q d) (Some p)]"
  let ?h2 = "link ?h1 previousJ (Some ?nj)"
  have ne: "previousJ \<noteq> ?nj" using "1.prems"(2) by simp
  have lt: "previousJ < length ?h1" "?nj < length ?h1" using "1.prems"(2) by simp_all
  have h2: "?h2 = ?h1[previousJ := (?h1 ! previousJ)\<lparr>nextJoint := Some ?nj,
                     curve1 := (if curve1 (?h1 ! previousJ) = None then curve0 (?h1 ! ?nj) else curve1 (?h1 ! previousJ))\<rparr>,
       ?nj := (?h1 ! ?nj)\<lparr>previousJoint := Some previousJ,
                     curve0 := (if curve0 (?h1 ! ?nj) = None then curve1 (?h1 ! previousJ) else curve0 (?h1 ! ?nj))\<rparr>]"
    by (rule link_distinct [OF ne lt])
  have len: "length ?h2 = Suc (length h)" by (simp add: h2)
  have nz: "0 < length h" using "1.prems"(2) by (cases h) auto
  have p0: "previousJoint (?h2 ! 0) = None"
    unfolding h2 using nz "1.prems"(2,3) by (cases "previousJ = 0") (simp_all add: nth_append)
  have rec: "linkFragments L d (q # rest) ?h2 ?nj (createOffsetSegment L p q d) = (h', previousJ', fragment')"
    using "1.prems"(1) by (simp add: alloc_eq Let_def)
  show ?case
    by (rule "1.IH" [OF refl _ refl _ rec]) (simp_all add: alloc_eq len p0)
qed simp_all

subsection \<open>The chain of an offset by zero\<close>































lemma annotate_none:
  "annotateJointMode L options (mkJoint fl None f0 None f1 jc sp nx pv) = mkJoint fl None f0 None f1 jc sp nx pv"
  by (simp add: annotateJointMode_def mkJoint_def)
























lemma stub_fragments:
  "createOffsetSegment planarLib (0, 0, 0) (1, 0, 0) 3 = Some (seg (0, 3, 0) (1, 3, 0) (0, 0, 0) (1, 0, 0))"
  "createOffsetSegment planarLib (1, 0, 0) (1, 0, 0) 3 = None"
  by (simp_all add: createOffsetSegment_def planarLib_def smallMetricDistance_def seg_def)

lemma stub_build: "buildChain planarLib stubPoints True (defaultOptions 3) = (stubBuilt, 0)"
proof -
  have d: "leftOffsetDistance (defaultOptions 3) = 3" by (simp add: defaultOptions_def)
  have o: "\<not> pointAlmostEqual planarLib ((0, 0, 0)::Point3d) (1, 0, 0)"
    by (simp add: planarLib_sel sameCoordinate_def smallMetricDistance_def)
  show ?thesis
    unfolding buildChain_def stubPoints_def d
    by (simp add: o stub_fragments alloc_def link_distinct newJoint_mk mkJoint_sel mkJoint_upd
        stubBuilt_def Let_def)
qed

lemma stub_annotated:
  "annotateChain planarLib 0 (defaultOptions 3) 3 stubBuilt =
     [mkJoint Cap None None (Some (seg (0, 3, 0) (1, 3, 0) (0, 0, 0) (1, 0, 0))) (Some 0) None (Some (0, 0, 0)) (Some 1) None,
      mkJoint Cap (Some (seg (0, 3, 0) (1, 3, 0) (0, 0, 0) (1, 0, 0))) (Some 1) None None None (Some (1, 0, 0)) (Some 2) (Some 0),
      mkJoint Unknown None None None None None (Some (1, 0, 0)) None (Some 1)]"
  unfolding annotateChain_def visitJointsOnChain_def stubBuilt_def
  by (simp add: annotateAt_def annotate_none annotate_cap_start annotate_cap_end mkJoint_sel Let_def)




section \<open>Claims\<close>

text \<open>
  C8 (as amended). With assertions skipped, \<open>extractNodeId\<close> never throws, and a name that
  does not contain \<^verbatim>\<open>Node_\<close>, or one whose suffix does not parse as an integer, yields 0.
  With assertions enabled exactly these names make it throw: the name that does not contain
  \<^verbatim>\<open>Node_\<close> and the name whose suffix does not parse. In either build a name whose suffix
  parses yields the number that \<^verbatim>\<open>parseInt\<close> returns for the suffix, and for a name
  \<^verbatim>\<open>Node_<digits>\<close> whose digits denote a value of at most \<open>2\<^sup>5\<^sup>3\<close> that number is the value of
  the digits.
\<close>

theorem extractNodeId_defaults:
  "(\<exists>i. extractNodeId False name = Inr i)
   \<and> (ds \<noteq> [] \<longrightarrow> list_all isDigit ds \<longrightarrow> decimalValue ds \<le> 2 ^ 53 \<longrightarrow>
        extractNodeId b (js ''Node_'' @ ds) = Inr (Finite (int (decimalValue ds))))
   \<and> ((\<nexists>pre post. name = pre @ js ''Node_'' @ post) \<longrightarrow>
        extractNodeId False name = Inr (Finite 0) \<and> extractNodeId True name = Inl AssertionError)
   \<and> (nodeIdRegex name = Some g \<longrightarrow> parseInt10 g = NaN \<longrightarrow>
        extractNodeId False name = Inr (Finite 0) \<and> extractNodeId True name = Inl AssertionError)
   \<and> (nodeIdRegex name = Some g \<longrightarrow> parseInt10 g \<noteq> NaN \<longrightarrow>
        extractNodeId b name = Inr (parseInt10 g))
   \<and> ((\<exists>e. extractNodeId True name = Inl e) \<longleftrightarrow>
        (case nodeIdRegex name of None \<Rightarrow> True | Some g \<Rightarrow> parseInt10 g = NaN))"
proof (intro conjI impI)
  show "\<exists>i. extractNodeId False name = Inr i"
    by (simp add: extractNodeId_def assert_def Let_def split: option.splits)
next
  assume "ds \<noteq> []" "list_all isDigit ds" "decimalValue ds \<le> 2 ^ 53"
  then show "extractNodeId b (js ''Node_'' @ ds) = Inr (Finite (int (decimalValue ds)))"
    by (simp add: extractNodeId_def assert_def Let_def nodeIdRegex_prefix parseInt10_digits)
next
  assume "\<nexists>pre post. name = pre @ js ''Node_'' @ post"
  then have "nodeIdRegex name = None" by (rule nodeIdRegex_None)
  then show "extractNodeId False name = Inr (Finite 0)" "extractNodeId True name = Inl AssertionError"
    by (simp_all add: extractNodeId_def assert_def)
next
  assume "nodeIdRegex name = Some g" "parseInt10 g = NaN"
  then show "extractNodeId False name = Inr (Finite 0)" "extractNodeId True name = Inl AssertionError"
    by (simp_all add: extractNodeId_def assert_def)
next
  assume "nodeIdRegex name = Some g" "parseInt10 g \<noteq> NaN"
  then show "extractNodeId b name = Inr (parseInt10 g)"
    by (simp add: extractNodeId_def assert_def)
next
  show "(\<exists>e. extractNodeId True name = Inl e) \<longleftrightarrow>
        (case nodeIdRegex name of None \<Rightarrow> True | Some g \<Rightarrow> parseInt10 g = NaN)"
    by (simp add: extractNodeId_def assert_def Let_def split: option.splits)
qed

text \<open>
  \<^verbatim>\<open>Node_042\<close> yields 42 in both builds, \<^verbatim>\<open>Mesh7\<close> and \<^verbatim>\<open>Node_Root\<close> yield 0 with assertions
  skipped, and \<^verbatim>\<open>Node_9007199254740993\<close>, whose digits denote \<open>2\<^sup>5\<^sup>3 + 1\<close>, yields the nearest
  double \<open>2\<^sup>5\<^sup>3\<close>.
\<close>

theorem extractNodeId_defaults_witness:
  "extractNodeId False (js ''Node_042'') = Inr (Finite 42)
   \<and> extractNodeId True (js ''Node_042'') = Inr (Finite 42)
   \<and> extractNodeId False (js ''Mesh7'') = Inr (Finite 0)
   \<and> extractNodeId False (js ''Node_Root'') = Inr (Finite 0)
   \<and> extractNodeId True (js ''Node_Root'') = Inl AssertionError
   \<and> extractNodeId True (js ''Node_9007199254740993'') = Inr (Finite 9007199254740992)"
proof -
  have d: "js ''042'' \<noteq> []" "list_all isDigit (js ''042'')"
    by (simp_all add: js_def isDigit_def)
  have v: "decimalValue (js ''042'') = 42"
    by (simp add: decimalValue_def js_def lessThan_Suc numeral_3_eq_3)
  have app: "js ''Node_'' @ js ''042'' = js ''Node_042''"
    by (simp add: js_def)
  have nomatch: "\<nexists>pre post. js ''Mesh7'' = pre @ js ''Node_'' @ post"
  proof
    assume "\<exists>pre post. js ''Mesh7'' = pre @ js ''Node_'' @ post"
    then obtain pre post where e: "js ''Mesh7'' = pre @ js ''Node_'' @ post" by blast
    then have "length (js ''Mesh7'') = length pre + 5 + length post" by (simp add: js_def)
    then have "pre = [] \<and> post = []" by (simp add: js_def)
    with e show False by (simp add: js_def)
  qed
  have g: "nodeIdRegex (js ''Node_Root'') = Some (js ''Root'')"
    by (simp add: js_def isLineTerminator_def)
  have p: "parseInt10 (js ''Root'') = NaN"
    by (simp add: parseInt10_def js_def isWhiteSpace_def isLineTerminator_def isDigit_def)
  have gb: "nodeIdRegex (js ''Node_9007199254740993'') = Some (js ''9007199254740993'')"
    by (simp add: js_def isLineTerminator_def)
  have bl: "bitLength 9007199254740993 = Suc 53"
    by (rule bitLength_eq) simp_all
  have rb: "roundToDouble 9007199254740993 = Some 9007199254740992"
    unfolding roundToDouble_def bl by (simp add: Let_def)
  have pb: "parseInt10 (js ''9007199254740993'') = Finite 9007199254740992"
    by (simp add: parseInt10_def js_def isWhiteSpace_def isLineTerminator_def isDigit_def
          digitsToNat_def rb Let_def)
  from extractNodeId_defaults [of "js ''Mesh7''" "js ''042''" False "js ''Root''"] d v app nomatch
  have a: "extractNodeId False (js ''Node_042'') = Inr (Finite 42)"
    "extractNodeId False (js ''Mesh7'') = Inr (Finite 0)"
    by simp_all
  from extractNodeId_defaults [of "js ''Node_Root''" "js ''042''" True "js ''Root''"] d v app g p
  have b: "extractNodeId True (js ''Node_042'') = Inr (Finite 42)"
    "extractNodeId False (js ''Node_Root'') = Inr (Finite 0)"
    "extractNodeId True (js ''Node_Root'') = Inl AssertionError"
    by simp_all
  from extractNodeId_defaults [of "js ''Node_9007199254740993''" "js ''042''" True "js ''9007199254740993''"] gb pb
  have c: "extractNodeId True (js ''Node_9007199254740993'') = Inr (Finite 9007199254740992)"
    by simp
  from a b c show ?thesis by simp
qed

text \<open>With assertions enabled the name \<^verbatim>\<open>Mesh7\<close> makes \<open>extractNodeId\<close> throw.\<close>

theorem extractNodeId_throws_counterexample:
  "extractNodeId True (js ''Mesh7'') = Inl AssertionError"
  by (simp add: extractNodeId_def assert_def js_def)

text \<open>
  C1 (as amended). At a joint handled by the corner construction (the tangent rays at the
  end of \<open>curve0\<close> and the start of \<open>curve1\<close> intersect, at a fraction \<open>\<ge> 0\<close> on the first
  and \<open>\<le> 0\<close> on the second), with turn angle \<open>theta\<close>: if \<open>|theta|\<close> in degrees is at least
  \<open>minArcDegrees\<close> and the arc can be constructed (the original corner point is known and
  equally far from both fragment end points), the joint curve is the circular arc centred at
  that corner point. Otherwise, with \<open>step = clamp(maxChamferTurnDegrees, 10, cap)\<close> and the
  count 1 when \<open>|theta| \<le> step\<close> and \<open>ceil(|theta| / step)\<close> when not: a count \<open>\<le> 1\<close> inserts the
  sharp-corner line string; a count \<open>> 1\<close> inserts, when the arc can be constructed, a line
  string with exactly that many interior vertices at even steps of the arc fraction, and
  when it cannot, the joint becomes a Gap bridged by a straight segment.
\<close>

theorem annotateExtension_corner:
  assumes c: "curve0 j = Some c0" "curve1 j = Some c1"
    and r: "ray0 = fractionToPointAndDerivative L c0 1" "ray1 = fractionToPointAndDerivative L c1 0"
    and x: "X = closestApproachRay3dRay3d L ray0 ray1"
    and ext: "approachType X = Intersection" "fraction (detailA X) \<ge> 0" "fraction (detailB X) \<le> 0"
    and t: "theta = angleToXY L (direction ray0) (direction ray1)"
    and s: "step = Geometry_clamp (maxChamferTurnDegrees options) 10
                     (if allowSharpestCorners options then maxChamferTurnDegrees options else 120)"
    and n: "count = (if \<bar>degrees theta\<bar> \<le> step then 1 else \<lceil>\<bar>degrees theta\<bar> / step\<rceil>)"
    and a: "arc = constructArc L ray0 (baseCurveEnd c0) ray1"
    and j1: "j1 = j\<lparr>fraction0 := Some 1, fraction1 := Some 0, flexure := Extend\<rparr>"
  shows
    "(\<bar>degrees theta\<bar> \<ge> minArcDegrees options \<and> arc \<noteq> None \<longrightarrow>
        (\<exists>a. arc = Some a \<and> baseCurveEnd c0 = Some (center a)
           \<and> annotateExtension L options j = j1\<lparr>jointCurve := Some (CurvePrimitive (ArcCurve a) None None)\<rparr>))
     \<and> (\<not> (\<bar>degrees theta\<bar> \<ge> minArcDegrees options \<and> arc \<noteq> None) \<and> count \<le> 1 \<longrightarrow>
        annotateExtension L options j =
          j1\<lparr>jointCurve := Some (LineString3d_create [origin ray0, point (detailA X), origin ray1])\<rparr>)
     \<and> (\<not> (\<bar>degrees theta\<bar> \<ge> minArcDegrees options \<and> arc \<noteq> None) \<and> count > 1 \<and> arc \<noteq> None \<longrightarrow>
        (\<exists>a ps. arc = Some a \<and> length ps = nat count
           \<and> (\<forall>i < nat count. ps ! i =
                 fractionAndRadialFractionToPoint L a ((1 + 2 * real i) / (2 * real_of_int count))
                   (1 / cos (radians theta / (2 * real_of_int count))))
           \<and> annotateExtension L options j =
               j1\<lparr>jointCurve := Some (LineString3d_create (origin ray0 # ps @ [origin ray1]))\<rparr>))
     \<and> (count > 1 \<and> arc = None \<longrightarrow>
        annotateExtension L options j =
          j\<lparr>flexure := Gap,
            jointCurve := Some (LineSegment3d_create (fractionToPoint L c0 1) (fractionToPoint L c1 0)),
            fraction0 := Some 1, fraction1 := Some 0\<rparr>)"
proof -
  have cnt: "numChamferPoints options theta = count"
    by (simp add: numChamferPoints_def stepDegrees_def Let_def n s)
  have unf: "annotateExtension L options j =
      (if needArc options theta \<and> arc \<noteq> None
       then j1\<lparr>jointCurve := Some (CurvePrimitive (ArcCurve (the arc)) None None)\<rparr>
       else if count \<le> 1
         then j1\<lparr>jointCurve := Some (LineString3d_create [origin ray0, point (detailA X), origin ray1])\<rparr>
         else (case arc of
                 Some a \<Rightarrow> j1\<lparr>jointCurve := Some (LineString3d_create (origin ray0 # chamferPoints L a theta count @ [origin ray1]))\<rparr>
               | None \<Rightarrow> fillGap L c0 c1 j1))"
    using ext cnt unfolding annotateExtension_def c r x t a j1
    by (auto simp: Let_def)
  have cen: "\<And>a. arc = Some a \<Longrightarrow> baseCurveEnd c0 = Some (center a)"
    by (auto simp: a constructArc_def Let_def split: option.splits if_splits)
  have p1: "\<bar>degrees theta\<bar> \<ge> minArcDegrees options \<and> arc \<noteq> None \<longrightarrow>
        (\<exists>a. arc = Some a \<and> baseCurveEnd c0 = Some (center a)
           \<and> annotateExtension L options j = j1\<lparr>jointCurve := Some (CurvePrimitive (ArcCurve a) None None)\<rparr>)"
    using cen by (auto simp: unf needArc_def)
  have p2: "\<not> (\<bar>degrees theta\<bar> \<ge> minArcDegrees options \<and> arc \<noteq> None) \<and> count \<le> 1 \<longrightarrow>
        annotateExtension L options j =
          j1\<lparr>jointCurve := Some (LineString3d_create [origin ray0, point (detailA X), origin ray1])\<rparr>"
    by (auto simp: unf needArc_def)
  have p3: "\<not> (\<bar>degrees theta\<bar> \<ge> minArcDegrees options \<and> arc \<noteq> None) \<and> count > 1 \<and> arc \<noteq> None \<longrightarrow>
        (\<exists>a ps. arc = Some a \<and> length ps = nat count
           \<and> (\<forall>i < nat count. ps ! i =
                 fractionAndRadialFractionToPoint L a ((1 + 2 * real i) / (2 * real_of_int count))
                   (1 / cos (radians theta / (2 * real_of_int count))))
           \<and> annotateExtension L options j =
               j1\<lparr>jointCurve := Some (LineString3d_create (origin ray0 # ps @ [origin ray1]))\<rparr>)"
  proof (intro impI)
    assume h: "\<not> (\<bar>degrees theta\<bar> \<ge> minArcDegrees options \<and> arc \<noteq> None) \<and> count > 1 \<and> arc \<noteq> None"
    then obtain a0 where a0: "arc = Some a0" by auto
    have "annotateExtension L options j =
        j1\<lparr>jointCurve := Some (LineString3d_create (origin ray0 # chamferPoints L a0 theta count @ [origin ray1]))\<rparr>"
      using h a0 by (simp add: unf needArc_def)
    then show "\<exists>a ps. arc = Some a \<and> length ps = nat count
           \<and> (\<forall>i < nat count. ps ! i =
                 fractionAndRadialFractionToPoint L a ((1 + 2 * real i) / (2 * real_of_int count))
                   (1 / cos (radians theta / (2 * real_of_int count))))
           \<and> annotateExtension L options j =
               j1\<lparr>jointCurve := Some (LineString3d_create (origin ray0 # ps @ [origin ray1]))\<rparr>"
      using a0 length_chamferPoints nth_chamferPoints by blast
  qed
  have p4: "count > 1 \<and> arc = None \<longrightarrow>
        annotateExtension L options j =
          j\<lparr>flexure := Gap,
            jointCurve := Some (LineSegment3d_create (fractionToPoint L c0 1) (fractionToPoint L c1 0)),
            fraction0 := Some 1, fraction1 := Some 0\<rparr>"
    by (auto simp: unf fillGap_def j1)
  from p1 p2 p3 p4 show ?thesis by blast
qed


theorem annotateExtension_corner_witness:
  "annotateExtension planarLib ((defaultOptions 1)\<lparr>minArcDegrees := 45\<rparr>) cornerJoint =
     cornerJoint\<lparr>fraction0 := Some 1, fraction1 := Some 0, flexure := Extend,
                 jointCurve := Some (LineString3d_create [(2, - 1, 0), (5, - 1, 0), (5, 4, 0)])\<rparr>"
proof -
  let ?c0 = "seg (0, - 1, 0) (2, - 1, 0) (0, 0, 0) (2, 0, 0)"
  let ?c1 = "seg (5, 4, 0) (5, 6, 0) (4, 4, 0) (4, 6, 0)"
  let ?o = "(defaultOptions 1)\<lparr>minArcDegrees := 45\<rparr>"
  have r0: "fractionToPointAndDerivative planarLib ?c0 1 = Ray3d (2, - 1, 0) (2, 0, 0)"
    by (simp add: fractionToPointAndDerivative_def seg_def)
  have r1: "fractionToPointAndDerivative planarLib ?c1 0 = Ray3d (5, 4, 0) (0, 2, 0)"
    by (simp add: fractionToPointAndDerivative_def seg_def)
  have lib: "closestApproachRay3dRay3d planarLib = rayRayXY" "angleToXY planarLib = signedAngleXY"
    by (simp_all add: planarLib_def)
  have be: "baseCurveEnd ?c0 = Some (2, 0, 0)"
    by (simp add: seg_def)
  have c: "curve0 cornerJoint = Some ?c0" "curve1 cornerJoint = Some ?c1"
    by (simp_all add: cornerJoint_def newJoint_def)
  have x: "closestApproachRay3dRay3d planarLib (Ray3d (2, - 1, 0) (2, 0, 0)) (Ray3d (5, 4, 0) (0, 2, 0)) =
      CurveLocationDetailPair Intersection (CurveLocationDetail (3/2) (5, - 1, 0)) (CurveLocationDetail (- 5/2) (5, - 1, 0))"
    by (simp only: lib ex_rays)
  have t: "angleToXY planarLib (direction (Ray3d (2, - 1, 0) (2, 0, 0))) (direction (Ray3d (5, 4, 0) (0, 2, 0))) = Angle (pi / 2) 90"
    by (simp add: lib ex_theta del: signedAngleXY.simps)
  have st: "Geometry_clamp (maxChamferTurnDegrees ?o) 10 (if allowSharpestCorners ?o then maxChamferTurnDegrees ?o else 120) = 90"
    by (simp add: Geometry_clamp_def defaultOptions_def)
  note th = annotateExtension_corner [where L = planarLib and options = ?o and j = cornerJoint,
      OF c r0 [symmetric] r1 [symmetric] x [symmetric] _ _ _ t [symmetric] st [symmetric] refl _ refl]
  have "approachType (CurveLocationDetailPair Intersection (CurveLocationDetail (3/2) (5, - 1, 0)) (CurveLocationDetail (- 5/2) (5, - 1, 0))) = Intersection"
    "fraction (detailA (CurveLocationDetailPair Intersection (CurveLocationDetail (3/2) (5, - 1, 0)) (CurveLocationDetail (- 5/2) (5, - 1, 0)))) \<ge> 0"
    "fraction (detailB (CurveLocationDetailPair Intersection (CurveLocationDetail (3/2) (5, - 1, 0)) (CurveLocationDetail (- 5/2) (5, - 1, 0)))) \<le> 0"
    by simp_all
  from th [OF this, of "constructArc planarLib (Ray3d (2, - 1, 0) (2, 0, 0)) (baseCurveEnd ?c0) (Ray3d (5, 4, 0) (0, 2, 0))"]
  show ?thesis
    by (simp add: be ex_arc)
qed


theorem annotateExtension_arc_counterexample:
  "annotateExtension planarLib ((defaultOptions 1)\<lparr>minArcDegrees := 45\<rparr>) cornerJoint =
     cornerJoint\<lparr>fraction0 := Some 1, fraction1 := Some 0, flexure := Extend,
                 jointCurve := Some (LineString3d_create [(2, - 1, 0), (5, - 1, 0), (5, 4, 0)])\<rparr>
   \<and> \<bar>degrees (angleToXY planarLib (2, 0, 0) (0, 2, 0))\<bar> \<ge> minArcDegrees ((defaultOptions 1)\<lparr>minArcDegrees := 45\<rparr>)"
proof -
  have r0: "fractionToPointAndDerivative planarLib (seg (0, - 1, 0) (2, - 1, 0) (0, 0, 0) (2, 0, 0)) 1
      = Ray3d (2, - 1, 0) (2, 0, 0)"
    by (simp add: fractionToPointAndDerivative_def seg_def)
  have r1: "fractionToPointAndDerivative planarLib (seg (5, 4, 0) (5, 6, 0) (4, 4, 0) (4, 6, 0)) 0
      = Ray3d (5, 4, 0) (0, 2, 0)"
    by (simp add: fractionToPointAndDerivative_def seg_def)
  have lib: "closestApproachRay3dRay3d planarLib = rayRayXY" "angleToXY planarLib = signedAngleXY"
    by (simp_all add: planarLib_def)
  have be: "baseCurveEnd (seg (0, - 1, 0) (2, - 1, 0) (0, 0, 0) (2, 0, 0)) = Some (2, 0, 0)"
    by (simp add: seg_def)
  have n: "numChamferPoints ((defaultOptions 1)\<lparr>minArcDegrees := 45\<rparr>) (Angle (pi / 2) 90) = 1"
    by (simp add: numChamferPoints_def stepDegrees_def Geometry_clamp_def defaultOptions_def)
  show ?thesis
    unfolding annotateExtension_def cornerJoint_def newJoint_def
    by (simp add: r0 r1 lib be ex_arc ex_theta ex_rays n [unfolded defaultOptions_def, simplified]
          needArc_def defaultOptions_def Let_def del: rayRayXY.simps signedAngleXY.simps)
qed


text \<open>
  C3 (as amended). At a joint between two line-segment fragments whose end points do not
  already coincide and whose support lines intersect at the parameters \<open>(f0, f1)\<close>: the
  joint is marked Trim at exactly \<open>(f0, f1)\<close> if and only if \<open>f0 < 1\<close> and \<open>f1 > 0\<close>; when
  \<open>f0 > 1\<close> and \<open>f1 > 1\<close> it is marked Gap, with the straight joint segment from the end of
  fragment 0 to the start of fragment 1 and the fractions reset to \<open>(1, 0)\<close>; and when
  \<open>f0 \<ge> 1\<close> and \<open>f1 \<le> 0\<close> it is handed to the corner construction.
\<close>

theorem annotateJointMode_line_pair:
  assumes c: "curve0 j = Some c0" "curve1 j = Some c1"
    and sg: "isLineSegment3d c0" "isLineSegment3d c1"
    and ne: "\<not> pointAlmostEqual L (endPoint L c0) (startPoint L c1)"
    and x: "X = closestApproachRay3dRay3d L (fractionToPointAndDerivative L c0 0)
                  (fractionToPointAndDerivative L c1 0)"
    and int: "approachType X = Intersection"
    and f: "f0 = fraction (detailA X)" "f1 = fraction (detailB X)"
  shows
    "(f0 < 1 \<and> f1 > 0 \<longrightarrow>
        annotateJointMode L options j = j\<lparr>fraction0 := Some f0, fraction1 := Some f1, flexure := Trim\<rparr>)
     \<and> (flexure j \<noteq> Trim \<longrightarrow> (flexure (annotateJointMode L options j) = Trim \<longleftrightarrow> f0 < 1 \<and> f1 > 0))
     \<and> (f0 > 1 \<and> f1 > 1 \<longrightarrow>
        annotateJointMode L options j =
          j\<lparr>flexure := Gap,
            jointCurve := Some (LineSegment3d_create (fractionToPoint L c0 1) (fractionToPoint L c1 0)),
            fraction0 := Some 1, fraction1 := Some 0\<rparr>)
     \<and> (f0 \<ge> 1 \<and> f1 \<le> 0 \<longrightarrow>
        annotateJointMode L options j =
          annotateExtension L options (j\<lparr>fraction0 := Some f0, fraction1 := Some f1\<rparr>))"
proof -
  let ?j1 = "j\<lparr>fraction0 := Some f0, fraction1 := Some f1\<rparr>"
  have unf: "annotateJointMode L options j =
      (if f0 \<ge> 1 \<and> f1 \<le> 0 then annotateExtension L options ?j1
       else if f0 < 1 \<and> f1 > 0 then ?j1\<lparr>flexure := Trim\<rparr>
       else if f0 > 1 \<and> f1 > 1 then
         ?j1\<lparr>flexure := Gap,
             jointCurve := Some (LineSegment3d_create (fractionToPoint L c0 1) (fractionToPoint L c1 0)),
             fraction0 := Some 1, fraction1 := Some 0\<rparr>
       else ?j1)"
    using sg ne int unfolding annotateJointMode_def c x f
    by (simp add: Let_def)
  have e: "flexure (annotateExtension L options ?j1) \<noteq> Trim"
    using flexure_annotateExtension [of ?j1 c0 c1 L options] c by auto
  have p1: "f0 < 1 \<and> f1 > 0 \<longrightarrow>
        annotateJointMode L options j = j\<lparr>fraction0 := Some f0, fraction1 := Some f1, flexure := Trim\<rparr>"
    by (simp add: unf)
  have p2: "flexure j \<noteq> Trim \<longrightarrow> (flexure (annotateJointMode L options j) = Trim \<longleftrightarrow> f0 < 1 \<and> f1 > 0)"
    using e by (auto simp: unf)
  have p3: "f0 > 1 \<and> f1 > 1 \<longrightarrow>
        annotateJointMode L options j =
          j\<lparr>flexure := Gap,
            jointCurve := Some (LineSegment3d_create (fractionToPoint L c0 1) (fractionToPoint L c1 0)),
            fraction0 := Some 1, fraction1 := Some 0\<rparr>"
    by (simp add: unf)
  have p4: "f0 \<ge> 1 \<and> f1 \<le> 0 \<longrightarrow>
        annotateJointMode L options j =
          annotateExtension L options (j\<lparr>fraction0 := Some f0, fraction1 := Some f1\<rparr>)"
    by (simp add: unf)
  from p1 p2 p3 p4 show ?thesis by blast
qed


theorem annotateJointMode_line_pair_witness:
  "annotateJointMode planarLib (defaultOptions 2) trimJoint =
     trimJoint\<lparr>fraction0 := Some (- 1), fraction1 := Some 2, flexure := Trim\<rparr>
   \<and> flexure (annotateJointMode planarLib (defaultOptions 2) trimJoint) = Trim"
proof -
  let ?c0 = "seg (0, 2, 0) (1, 2, 0) (0, 0, 0) (1, 0, 0)"
  let ?c1 = "seg (- 1, 0, 0) (- 1, 1, 0) (1, 0, 0) (1, 1, 0)"
  have c: "curve0 trimJoint = Some ?c0" "curve1 trimJoint = Some ?c1"
    by (simp_all add: trimJoint_def newJoint_def)
  have sg: "isLineSegment3d ?c0" "isLineSegment3d ?c1"
    by (simp_all add: isLineSegment3d_def seg_def)
  have i: "approachType (CurveLocationDetailPair Intersection (CurveLocationDetail (- 1) (- 1, 2, 0)) (CurveLocationDetail 2 (- 1, 2, 0))) = Intersection"
    by simp
  have fl: "flexure trimJoint \<noteq> Trim"
    by (simp add: trimJoint_def newJoint_def)
  from annotateJointMode_line_pair [OF c sg trim_apart trim_rays [symmetric] i refl refl, of "defaultOptions 2"] fl
  show ?thesis by simp
qed


theorem annotateJointMode_trim_counterexample:
  "annotateJointMode planarLib (defaultOptions 2) trimJoint =
     trimJoint\<lparr>fraction0 := Some (- 1), fraction1 := Some 2, flexure := Trim\<rparr>
   \<and> \<not> (0 \<le> (- 1 :: real) \<and> (- 1 :: real) \<le> 1 \<and> 0 \<le> (2 :: real) \<and> (2 :: real) \<le> 1)"
proof -
  have "annotateJointMode planarLib (defaultOptions 2) trimJoint =
     trimJoint\<lparr>fraction0 := Some (- 1), fraction1 := Some 2, flexure := Trim\<rparr>"
    using trim_apart isLineSegment3d_seg unfolding annotateJointMode_def trimJoint_def newJoint_def
    by (simp add: trim_rays Let_def)
  then show ?thesis by simp
qed



text \<open>
  C5 (as amended). For a tile with a valid, readable tile header whose feature table is
  malformed, \<open>parseImdlDocument\<close> returns no document. What it returns instead depends on
  the kind of defect and on stages that come before the feature table is parsed:

  \<^item> the header of the feature table does not fit into the buffer: the invalid-feature-table
    status where the stream reports a read beyond its end through \<^verbatim>\<open>isPastTheEnd\<close>; where the
    stream throws on such a read, the RangeError leaves \<open>parseImdlDocument\<close>;

  \<^item> the declared length is not a multiple of 4: the glTF header that follows the declared
    length, the scene text and its JSON value are taken first, each giving up in its own
    way (invalid tile data, invalid scene, or an exception of the stream), and a tile that
    passes them all gets the invalid-feature-table status, whatever its scene contains;

  \<^item> the packed array runs past the end of the buffer: the glTF header is then looked for
    beyond the end of the buffer, and the result is invalid tile data, or the RangeError
    of a stream that throws; it is never the invalid-feature-table status.

  The parser's own stage, \<open>parse\<close>, returns the invalid-feature-table status for every scene
  document when the length is not a multiple of 4, and in all three cases where the stream
  does not throw.
\<close>

theorem malformed_feature_table_no_document:
  assumes hdr: "readImdlHeader D t = Inr (H, t1)" "isValid H" "isReadableVersion H"
    and buf: "arrayBuffer t1 = arrayBuffer t"
    and bad: "featureTableMalformed t (curPos t1)"
  shows "(\<forall>r. parseImdlDocument p D t \<noteq> Inr (Inr r))
     \<and> (headerUnreadable t (curPos t1) \<longrightarrow>
          parseImdlDocument p D t
            = (if p = Strict then Inl RangeError else Inr (Inl InvalidFeatureTable)))
     \<and> (lengthMisaligned t (curPos t1) \<longrightarrow>
          parseImdlDocument p D t
            = (case GltfHeader_new p (t1\<lparr>curPos := curPos t1 + uint32At (arrayBuffer t) (curPos t1)\<rparr>) of
                 Inl e \<Rightarrow> Inl e
               | Inr (gh, s4) \<Rightarrow>
                   if \<not> GltfHeader_isValid gh then Inr (Inl InvalidTileData)
                   else
                     (case nextBytes p (t1\<lparr>curPos := scenePosition gh\<rparr>) (sceneStrLength gh) of
                        Inl e \<Rightarrow> Inl e
                      | Inr (sceneStrData, s6) \<Rightarrow>
                          (case utf8ToString D sceneStrData of
                             None \<Rightarrow> Inr (Inl InvalidScene)
                           | Some sceneStr \<Rightarrow>
                               if sceneStr = [] then Inr (Inl InvalidScene)
                               else
                                 (case JSON_parse D sceneStr of
                                    Inl e \<Rightarrow> Inr (Inl InvalidTileData)
                                  | Inr sceneValue \<Rightarrow>
                                      if sceneValue = JNull \<or> meshes (imdlDoc sceneValue) = None
                                         \<or> length (arrayBuffer t) < binaryPosition gh
                                      then Inr (Inl InvalidTileData)
                                      else Inr (Inl InvalidFeatureTable))))))
     \<and> (arrayOverruns t (curPos t1) \<longrightarrow>
          parseImdlDocument p D t
            = (if p = Strict then Inl RangeError else Inr (Inl InvalidTileData)))
     \<and> (p = Lenient \<or> lengthMisaligned t (curPos t1) \<longrightarrow>
          (\<forall>doc bd m. parse p D doc bd \<lparr>startPos = curPos t1, multiModel = m\<rparr> t
                        = Inr (Inl InvalidFeatureTable)))"
proof -
  let ?b = "arrayBuffer t" and ?f = "curPos t1"
  let ?g = "?f + uint32At ?b ?f"
  let ?info = "\<lparr>startPos = ?f, multiModel = multiModelFeatureTable H\<rparr>"
  let ?stages = "case GltfHeader_new p (t1\<lparr>curPos := ?g\<rparr>) of
                 Inl e \<Rightarrow> Inl e
               | Inr (gh, s4) \<Rightarrow>
                   if \<not> GltfHeader_isValid gh then Inr (Inl InvalidTileData)
                   else
                     (case nextBytes p (t1\<lparr>curPos := scenePosition gh\<rparr>) (sceneStrLength gh) of
                        Inl e \<Rightarrow> Inl e
                      | Inr (sceneStrData, s6) \<Rightarrow>
                          (case utf8ToString D sceneStrData of
                             None \<Rightarrow> Inr (Inl InvalidScene)
                           | Some sceneStr \<Rightarrow>
                               if sceneStr = [] then Inr (Inl InvalidScene)
                               else
                                 (case JSON_parse D sceneStr of
                                    Inl e \<Rightarrow> Inr (Inl InvalidTileData)
                                  | Inr sceneValue \<Rightarrow>
                                      if sceneValue = JNull \<or> meshes (imdlDoc sceneValue) = None
                                         \<or> length ?b < binaryPosition gh
                                      then Inr (Inl InvalidTileData)
                                      else Inr (Inl InvalidFeatureTable))))"
  have unreadable: "parseImdlDocument p D t
            = (if p = Strict then Inl RangeError else Inr (Inl InvalidFeatureTable))"
    if "headerUnreadable t ?f"
    using that hdr
    by (cases p)
       (simp_all add: parseImdlDocument_def FeatureTableHeader_readFrom_eq throwsAt_def buf
          headerUnreadable_def FeatureTableHeader_sizeInBytes_def)
  have readable: "FeatureTableHeader_readFrom p t1 =
        Inr (Some \<lparr>ftLength = uint32At ?b ?f, ftCount = uint32At ?b (?f + 4),
                   numSubCategories = uint32At ?b (?f + 8)\<rparr>, t1\<lparr>curPos := ?f + 12\<rparr>)"
    if "\<not> headerUnreadable t ?f"
    using that
    by (simp add: FeatureTableHeader_readFrom_eq throwsAt_def buf headerUnreadable_def
          FeatureTableHeader_sizeInBytes_def)
  have bad': "featureTableMalformed (t1\<lparr>curPos := c\<rparr>) ?f" for c
    using bad
    by (simp add: featureTableMalformed_def headerUnreadable_def lengthMisaligned_def
          arrayOverruns_def buf)
  have mis': "lengthMisaligned (t1\<lparr>curPos := c\<rparr>) ?f" if "lengthMisaligned t ?f" for c
    using that by (simp add: headerUnreadable_def lengthMisaligned_def buf)
  have cur: "\<exists>c. s6 = t1\<lparr>curPos := c\<rparr>"
    if "nextBytes p (t1\<lparr>curPos := c0\<rparr>) k = Inr (d, s6)" for c0 k d s6
    using that by (auto simp: nextBytes_def split: if_splits)
  have scene: "(case parseScene p D str gh ?info s6 of
                  Inl e \<Rightarrow> Inr (Inl InvalidTileData) | Inr r \<Rightarrow> Inr r)
        = (case JSON_parse D str of
             Inl e \<Rightarrow> Inr (Inl InvalidTileData)
           | Inr sceneValue \<Rightarrow>
               if sceneValue = JNull \<or> meshes (imdlDoc sceneValue) = None
                  \<or> length ?b < binaryPosition gh
               then Inr (Inl InvalidTileData)
               else Inr (Inl InvalidFeatureTable))"
    if m: "lengthMisaligned t ?f" and s6: "s6 = t1\<lparr>curPos := c\<rparr>" for str gh s6 c
  proof (cases "JSON_parse D str")
    case (Inl e)
    then show ?thesis by (simp add: parseScene_def)
  next
    case (Inr v)
    have pm: "parse p D doc bd ?info s6 = Inr (Inl InvalidFeatureTable)" for doc bd
      unfolding s6 by (rule parse_malformed) (use bad' mis' [OF m] in simp_all)
    show ?thesis
    proof (cases "v = JNull")
      case True
      then show ?thesis using Inr by (simp add: parseScene_def)
    next
      case False
      then obtain x where "getProp v (js ''scene'') = Inr x"
        using getProp_defined by blast
      then show ?thesis
        using Inr False by (simp add: parseScene_def pm [unfolded s6] s6 buf)
    qed
  qed
  have misaligned: "parseImdlDocument p D t = ?stages" if m: "lengthMisaligned t ?f"
  proof -
    have r: "\<not> headerUnreadable t ?f" using m by (simp add: lengthMisaligned_def)
    note st = parseImdlDocument_stages [OF hdr readable [OF r], simplified]
    show ?thesis
    proof (cases "GltfHeader_new p (t1\<lparr>curPos := ?g\<rparr>)")
      case (Inl e)
      then show ?thesis by (simp add: st)
    next
      case (Inr x)
      obtain gh s4 where x: "x = (gh, s4)" by (cases x)
      show ?thesis
      proof (cases "nextBytes p (t1\<lparr>curPos := scenePosition gh\<rparr>) (sceneStrLength gh)")
        case (Inl e)
        then show ?thesis using Inr x by (simp add: st)
      next
        case nb: (Inr y)
        obtain d s6 where y: "y = (d, s6)" by (cases y)
        from cur nb y obtain c where c: "s6 = t1\<lparr>curPos := c\<rparr>" by blast
        show ?thesis
          using Inr x nb y
          by (simp add: st scene [OF m c] split: option.splits)
      qed
    qed
  qed
  have overrun: "parseImdlDocument p D t
            = (if p = Strict then Inl RangeError else Inr (Inl InvalidTileData))"
    if a: "arrayOverruns t ?f"
  proof -
    have r: "\<not> headerUnreadable t ?f" using a by (simp add: arrayOverruns_def)
    have far: "length (arrayBuffer (t1\<lparr>curPos := ?g\<rparr>)) < curPos (t1\<lparr>curPos := ?g\<rparr>)"
      using a by (simp add: arrayOverruns_def buf)
    note st = parseImdlDocument_stages [OF hdr readable [OF r], simplified]
    show ?thesis
      by (simp add: st GltfHeader_new_beyond [OF far] GltfHeader_isValid_def
            TileFormat_Unknown_def TileFormat_Gltf_def)
  qed
  have stage: "parse p D doc bd \<lparr>startPos = ?f, multiModel = m\<rparr> t = Inr (Inl InvalidFeatureTable)"
    if "p = Lenient \<or> lengthMisaligned t ?f" for doc bd m
    by (rule parse_malformed) (use bad that in simp_all)
  have nodoc: "parseImdlDocument p D t \<noteq> Inr (Inr r)" for r
  proof -
    from bad consider "headerUnreadable t ?f" | "lengthMisaligned t ?f" | "arrayOverruns t ?f"
      by (auto simp: featureTableMalformed_def)
    then show ?thesis
    proof cases
      case 1
      then show ?thesis by (simp add: unreadable)
    next
      case 2
      then show ?thesis
        by (simp add: misaligned split: sum.splits prod.splits option.splits)
    next
      case 3
      then show ?thesis by (simp add: overrun)
    qed
  qed
  from nodoc unreadable misaligned overrun stage show ?thesis
    by (intro conjI allI impI) (simp_all only:, blast+)
qed

text \<open>
  A tile that declares a feature table of 14 bytes and is well-formed otherwise gets the
  invalid-feature-table status; a tile that ends inside the header of its feature table
  gets it from a stream that does not throw, and a RangeError from one that does; a tile
  that declares a feature table of 200 bytes in a buffer of 64 gets invalid tile data or
  that RangeError.
\<close>

theorem malformed_feature_table_no_document_witness:
  "featureTableMalformed oddLengthTile 12
   \<and> parseImdlDocument Lenient (exampleDecoder Lenient) oddLengthTile = Inr (Inl InvalidFeatureTable)
   \<and> parseImdlDocument Strict (exampleDecoder Strict) oddLengthTile = Inr (Inl InvalidFeatureTable)
   \<and> parse Lenient (exampleDecoder Lenient) animatedDocument \<lparr>bytes = [1, 2, 3], byteOffset = 59\<rparr>
         \<lparr>startPos = 12, multiModel = False\<rparr> oddLengthTile = Inr (Inl InvalidFeatureTable)
   \<and> parse Strict (exampleDecoder Strict) animatedDocument \<lparr>bytes = [1, 2, 3], byteOffset = 59\<rparr>
         \<lparr>startPos = 12, multiModel = False\<rparr> oddLengthTile = Inr (Inl InvalidFeatureTable)
   \<and> parseImdlDocument Lenient (exampleDecoder Lenient) truncatedTile = Inr (Inl InvalidFeatureTable)
   \<and> parseImdlDocument Strict (exampleDecoder Strict) truncatedTile = Inl RangeError
   \<and> parseImdlDocument Lenient (exampleDecoder Lenient) overrunTile = Inr (Inl InvalidTileData)
   \<and> parseImdlDocument Strict (exampleDecoder Strict) overrunTile = Inl RangeError"
proof -
  let ?H = "\<lparr>isValid = True, isReadableVersion = True, multiModelFeatureTable = False\<rparr>"
  have v: "isValid ?H" "isReadableVersion ?H" by simp_all
  have ho: "readImdlHeader (exampleDecoder p) oddLengthTile = Inr (?H, oddLengthTile\<lparr>curPos := 12\<rparr>)" for p
    by (simp add: exampleDecoder_def exampleHeader_oddLength)
  have bo: "arrayBuffer (oddLengthTile\<lparr>curPos := 12\<rparr>) = arrayBuffer oddLengthTile" by simp
  have mo: "lengthMisaligned oddLengthTile 12"
    by (simp add: lengthMisaligned_def headerUnreadable_def FeatureTableHeader_sizeInBytes_def
          oddLengthTile_def oddLength_words)
  then have fo: "featureTableMalformed oddLengthTile 12"
    by (simp add: featureTableMalformed_def)
  have fo': "featureTableMalformed oddLengthTile (curPos (oddLengthTile\<lparr>curPos := 12\<rparr>))"
    using fo by simp
  have str: "js ''{\"meshes\":{}}'' \<noteq> []" by (simp add: js_def)
  have a: "parseImdlDocument p (exampleDecoder p) oddLengthTile = Inr (Inl InvalidFeatureTable)" for p
    using malformed_feature_table_no_document [where p = p, OF ho [of p] v bo fo',
        THEN conjunct2, THEN conjunct2, THEN conjunct1] mo
    by (simp add: oddLengthTile_def oddLength_words oddLength_gltf GltfHeader_isValid_def
          nextBytes_def throwsAt_def exampleDecoder_def oddLength_scene exampleJson_def
          plain_imdlDoc plainDocument_def str)
  have b: "parse p (exampleDecoder p) animatedDocument \<lparr>bytes = [1, 2, 3], byteOffset = 59\<rparr>
             \<lparr>startPos = 12, multiModel = False\<rparr> oddLengthTile = Inr (Inl InvalidFeatureTable)" for p
    using malformed_feature_table_no_document [where p = p, OF ho [of p] v bo fo',
        THEN conjunct2, THEN conjunct2, THEN conjunct2, THEN conjunct2] mo
    by simp
  have ht: "readImdlHeader (exampleDecoder p) truncatedTile = Inr (?H, truncatedTile\<lparr>curPos := 12\<rparr>)" for p
    by (simp add: exampleDecoder_def exampleHeader_truncated)
  have bt: "arrayBuffer (truncatedTile\<lparr>curPos := 12\<rparr>) = arrayBuffer truncatedTile" by simp
  have ut: "headerUnreadable truncatedTile 12"
    by (simp add: headerUnreadable_def FeatureTableHeader_sizeInBytes_def truncatedTile_def
          truncatedBytes_def)
  then have ft: "featureTableMalformed truncatedTile (curPos (truncatedTile\<lparr>curPos := 12\<rparr>))"
    by (simp add: featureTableMalformed_def)
  have c: "parseImdlDocument Lenient (exampleDecoder Lenient) truncatedTile = Inr (Inl InvalidFeatureTable)"
    "parseImdlDocument Strict (exampleDecoder Strict) truncatedTile = Inl RangeError"
    using malformed_feature_table_no_document [where p = Lenient, OF ht [of Lenient] v bt ft,
        THEN conjunct2, THEN conjunct1]
      malformed_feature_table_no_document [where p = Strict, OF ht [of Strict] v bt ft,
        THEN conjunct2, THEN conjunct1] ut
    by simp_all
  have hv: "readImdlHeader (exampleDecoder p) overrunTile
      = Inr (?H, \<lparr>arrayBuffer = tileBytes 200 1, curPos = 12\<rparr>)" for p
    by (simp add: exampleDecoder_def exampleHeader_tileBytes overrunTile_def)
  have bv: "arrayBuffer \<lparr>arrayBuffer = tileBytes 200 1, curPos = 12\<rparr> = arrayBuffer overrunTile"
    by (simp add: overrunTile_def)
  have ov: "arrayOverruns overrunTile 12"
    by (simp add: arrayOverruns_def headerUnreadable_def FeatureTableHeader_sizeInBytes_def
          overrunTile_def tileBytes_words)
  then have fv: "featureTableMalformed overrunTile (curPos \<lparr>arrayBuffer = tileBytes 200 1, curPos = 12\<rparr>)"
    by (simp add: featureTableMalformed_def)
  have d: "parseImdlDocument Lenient (exampleDecoder Lenient) overrunTile = Inr (Inl InvalidTileData)"
    "parseImdlDocument Strict (exampleDecoder Strict) overrunTile = Inl RangeError"
    using malformed_feature_table_no_document [where p = Lenient, OF hv [of Lenient] v bv fv,
        THEN conjunct2, THEN conjunct2, THEN conjunct2, THEN conjunct1]
      malformed_feature_table_no_document [where p = Strict, OF hv [of Strict] v bv fv,
        THEN conjunct2, THEN conjunct2, THEN conjunct2, THEN conjunct1] ov
    by simp_all
  from fo a [of Lenient] a [of Strict] b [of Lenient] b [of Strict] c d show ?thesis by simp
qed

text \<open>
  The tile that declares a feature table of 13 bytes and carries the scene text \<^verbatim>\<open>{\<close>, which
  is no JSON: its feature table is malformed, and the result is invalid tile data. And the
  tile that declares a feature table of 200 bytes in a buffer of 64: its packed array runs
  past the end of the buffer, and the result is invalid tile data from a stream that does
  not throw, and a RangeError from one that does.
\<close>

theorem malformed_feature_table_counterexample:
  "featureTableMalformed brokenSceneTile 12
   \<and> parseImdlDocument Lenient (exampleDecoder Lenient) brokenSceneTile = Inr (Inl InvalidTileData)
   \<and> parseImdlDocument Strict (exampleDecoder Strict) brokenSceneTile = Inr (Inl InvalidTileData)
   \<and> featureTableMalformed overrunTile 12
   \<and> parseImdlDocument Lenient (exampleDecoder Lenient) overrunTile = Inr (Inl InvalidTileData)
   \<and> parseImdlDocument Strict (exampleDecoder Strict) overrunTile = Inl RangeError"
  using brokenScene_result [of Lenient] brokenScene_result [of Strict]
    overrun_result [of Lenient] overrun_result [of Strict]
  by (simp add: featureTableMalformed_def lengthMisaligned_def headerUnreadable_def
        arrayOverruns_def FeatureTableHeader_sizeInBytes_def brokenSceneTile_def
        brokenScene_words overrunTile_def tileBytes_words)




subsection \<open>Degeneracy removal\<close>

text \<open>
  C4. The hook-shaped polyline \<open>(0,0), (10,0), (10,1), (9,1), (9,11)\<close>, open, offset to the
  left by 3, gives a chain of five joints \<open>0, 1, 2, 3, 4\<close>. In the first call of
  \<open>removeDegeneratePrimitives\<close> the branch that removes two fragments at once replaces the
  joints 1, 2 and 3 by the new joint 5 without counting the removal and without moving
  on to the new joint; the loop goes on from the joint 2, which is no longer on the chain,
  splices a second new joint 6 in between joints that are off the chain, makes it the
  predecessor of the joint 4, which is on the chain, and only then returns, reporting one
  removal. The chain has gone from five joints to the three joints \<open>0, 5, 4\<close>: a single
  call has made two replacements and taken three joints off the chain.
\<close>

theorem removeDegeneratePrimitives_double_cut:
  "buildChain planarLib hookPoints False (defaultOptions 3) = (hookBuilt, 0)
   \<and> annotateChain planarLib 0 (defaultOptions 3) (length hookPoints) hookBuilt = hookAnnotated
   \<and> removeDegeneratePrimitives planarLib hookAnnotated 0 (defaultOptions 3) (length hookPoints)
        = (hookRemoved, 0, 1, 3)
   \<and> chainJoints hookAnnotated 0 = [0, 1, 2, 3, 4]
   \<and> chainJoints hookRemoved 0 = [0, 5, 4]
   \<and> length hookRemoved = length hookAnnotated + 2
   \<and> previousJoint (hookRemoved ! 4) = Some 6"
proof -
  have n: "length hookPoints = 5" by (simp add: hookPoints_def)
  have l: "length hookRemoved = length hookAnnotated + 2"
    by (simp add: hookRemoved_def hookAnnotated_def)
  have p: "previousJoint (hookRemoved ! 4) = Some 6"
    by (simp add: hookRemoved_nth mkJoint_sel)
  show ?thesis
    unfolding n using hook_build hook_annotated hook_removed hook_chains l p by simp
qed

subsection \<open>The result of the offset\<close>

text \<open>
  C6 (as amended). With fewer than two input points the function throws a TypeError. For
  an input of at least two points, let \<open>chain\<close> be the points collected from the finished
  joint chain. If \<open>chain\<close> has fewer than 2 points the function returns \<^verbatim>\<open>undefined\<close>;
  otherwise it returns a Loop of \<open>chain\<close> when the first and the last point of \<open>chain\<close> are
  almost equal, and a Path of \<open>chain\<close> when they are not.
\<close>

theorem constructPolygonWireXYOffset_wraps_chain:
  "(length points < 2 \<longrightarrow> constructPolygonWireXYOffset L points wrap options = Inl TypeError)
   \<and> (2 \<le> length points \<longrightarrow>
        (length (offsetStrokes L points wrap options) < 2 \<longrightarrow>
            constructPolygonWireXYOffset L points wrap options = Inr None)
      \<and> (2 \<le> length (offsetStrokes L points wrap options)
          \<and> pointAlmostEqual L (hd (offsetStrokes L points wrap options))
                (last (offsetStrokes L points wrap options)) \<longrightarrow>
            constructPolygonWireXYOffset L points wrap options
              = Inr (Some (Loop (offsetStrokes L points wrap options))))
      \<and> (2 \<le> length (offsetStrokes L points wrap options)
          \<and> \<not> pointAlmostEqual L (hd (offsetStrokes L points wrap options))
                  (last (offsetStrokes L points wrap options)) \<longrightarrow>
            constructPolygonWireXYOffset L points wrap options
              = Inr (Some (Path (offsetStrokes L points wrap options)))))"
  by (auto simp: constructPolygonWireXYOffset_def Let_def)

text \<open>
  The hook-shaped polyline offset to the left by 3 comes out as the open path
  \<open>(0,3), (6,3), (6,3), (6,11)\<close>: the point where the two remaining fragments meet is
  collected with each of them.
\<close>

theorem constructPolygonWireXYOffset_wraps_chain_witness:
  "2 \<le> length hookPoints
   \<and> constructPolygonWireXYOffset planarLib hookPoints False (defaultOptions 3)
       = Inr (Some (Path [(0, 3, 0), (6, 3, 0), (6, 3, 0), (6, 11, 0)]))"
proof -
  have n: "2 \<le> length hookPoints" by (simp add: hookPoints_def)
  have ne: "\<not> pointAlmostEqual planarLib (hd [(0, 3, 0), (6, 3, 0), (6, 3, 0), (6, 11, 0)])
               (last [(0, 3, 0), (6, 3, 0), (6, 3, 0), (6, 11, 0)])"
    by (simp add: planarLib_sel sameCoordinate_def smallMetricDistance_def)
  from constructPolygonWireXYOffset_wraps_chain [of hookPoints planarLib False "defaultOptions 3"] ne n
  show ?thesis by (simp add: hook_strokes)
qed

text \<open>
  A single input point is no polyline: the second point that the first fragment needs is
  \<^verbatim>\<open>undefined\<close>, and the call throws instead of returning.
\<close>

theorem constructPolygonWireXYOffset_one_point_counterexample:
  "constructPolygonWireXYOffset planarLib [(0, 0, 0)] False (defaultOptions 3) = Inl TypeError"
  by (simp add: constructPolygonWireXYOffset_def)

subsection \<open>Wrap-around of an open input\<close>

text \<open>
  C10 (as amended). When \<open>wrap\<close> is true and the first and the last input point are not
  almost equal, the call goes on as with \<open>wrap\<close> false: it builds the same joint chain and
  returns the same result, so it fails or succeeds exactly as the call with \<open>wrap\<close> false
  does. The chain is not closed: the first joint has no predecessor, and the chain ends in
  a trailing joint at the last input point that has no successor and no outgoing fragment.
  The annotation marks that joint as a Cap when its incoming fragment exists, and leaves it
  unmarked when the last edge gave no fragment.
\<close>

theorem wrap_needs_closed_input:
  assumes open_input: "\<not> pointAlmostEqual L (points ! 0) (points ! (length points - 1))"
  shows "constructPolygonWireXYOffset L points True options
           = constructPolygonWireXYOffset L points False options
     \<and> buildChain L points True options = buildChain L points False options
     \<and> snd (buildChain L points True options) = 0
     \<and> previousJoint (fst (buildChain L points True options) ! 0) = None
     \<and> nextJoint (last (fst (buildChain L points True options))) = None
     \<and> curve1 (last (fst (buildChain L points True options))) = None
     \<and> swingPoint (last (fst (buildChain L points True options))) = Some (points ! (length points - 1))
     \<and> (curve0 (last (fst (buildChain L points True options))) \<noteq> None \<longrightarrow>
          flexure (annotateJointMode L options (last (fst (buildChain L points True options)))) = Cap)
     \<and> (curve0 (last (fst (buildChain L points True options))) = None \<longrightarrow>
          flexure (annotateJointMode L options (last (fst (buildChain L points True options)))) = Unknown)"
proof -
  have b: "buildChain L points True options = buildChain L points False options"
    using open_input by (simp add: buildChain_def)
  have c: "constructPolygonWireXYOffset L points True options
           = constructPolygonWireXYOffset L points False options"
    by (simp add: constructPolygonWireXYOffset_def offsetStrokes_def b)
  let ?d = "leftOffsetDistance options"
  let ?f0 = "createOffsetSegment L (points ! 0) (points ! 1) ?d"
  let ?h0 = "[newJoint None ?f0 (Some (points ! 0))]"
  obtain h1 pj fr where lf: "linkFragments L ?d (tl points) ?h0 0 ?f0 = (h1, pj, fr)"
    by (cases "linkFragments L ?d (tl points) ?h0 0 ?f0") auto
  have inv: "pj < length h1 \<and> previousJoint (h1 ! 0) = None"
    by (rule linkFragments_invariant [OF lf]) (simp_all add: newJoint_def)
  let ?t = "newJoint fr None (Some (points ! (length points - 1)))"
  let ?h2 = "h1 @ [?t]"
  let ?nj = "length h1"
  have ne: "pj \<noteq> ?nj" using inv by simp
  have lt: "pj < length ?h2" "?nj < length ?h2" using inv by simp_all
  have bc: "buildChain L points False options = (link ?h2 pj (Some ?nj), 0)"
    by (simp add: buildChain_def alloc_eq lf Let_def del: One_nat_def)
  have lk: "link ?h2 pj (Some ?nj) = ?h2[pj := (?h2 ! pj)\<lparr>nextJoint := Some ?nj,
                     curve1 := (if curve1 (?h2 ! pj) = None then curve0 (?h2 ! ?nj) else curve1 (?h2 ! pj))\<rparr>,
       ?nj := (?h2 ! ?nj)\<lparr>previousJoint := Some pj,
                     curve0 := (if curve0 (?h2 ! ?nj) = None then curve1 (?h2 ! pj) else curve0 (?h2 ! ?nj))\<rparr>]"
    by (rule link_distinct [OF ne lt])
  have la: "last (link ?h2 pj (Some ?nj)) = (?h2 ! ?nj)\<lparr>previousJoint := Some pj,
                     curve0 := (if curve0 (?h2 ! ?nj) = None then curve1 (?h2 ! pj) else curve0 (?h2 ! ?nj))\<rparr>"
    unfolding lk by (simp add: last_conv_nth)
  have nz: "0 < length h1" using inv by auto
  have p0: "previousJoint (link ?h2 pj (Some ?nj) ! 0) = None"
    unfolding lk using inv nz by (cases "pj = 0") (simp_all add: nth_append)
  have t1: "nextJoint (last (link ?h2 pj (Some ?nj))) = None"
    "curve1 (last (link ?h2 pj (Some ?nj))) = None"
    "swingPoint (last (link ?h2 pj (Some ?nj))) = Some (points ! (length points - 1))"
    unfolding la by (simp_all add: newJoint_def)
  have t2: "curve0 (last (link ?h2 pj (Some ?nj))) = None \<Longrightarrow>
            flexure (last (link ?h2 pj (Some ?nj))) = Unknown"
    unfolding la by (simp add: newJoint_def split: if_splits)
  have cap: "\<And>j. curve1 j = None \<Longrightarrow> curve0 j \<noteq> None \<Longrightarrow> flexure (annotateJointMode L options j) = Cap"
    by (auto simp: annotateJointMode_def split: option.splits)
  have bare: "\<And>j. curve1 j = None \<Longrightarrow> curve0 j = None \<Longrightarrow> annotateJointMode L options j = j"
    by (simp add: annotateJointMode_def)
  show ?thesis
    using c b p0 t1 cap [OF t1(2)] bare [OF t1(2)] t2 by (simp add: bc)
qed

text \<open>
  The hook-shaped polyline with \<open>wrap\<close> true: its end points differ, the chain is the one
  built for the open polyline and the result is the same open path.
\<close>

theorem wrap_needs_closed_input_witness:
  "\<not> pointAlmostEqual planarLib (hookPoints ! 0) (hookPoints ! (length hookPoints - 1))
   \<and> constructPolygonWireXYOffset planarLib hookPoints True (defaultOptions 3)
       = Inr (Some (Path [(0, 3, 0), (6, 3, 0), (6, 3, 0), (6, 11, 0)]))
   \<and> buildChain planarLib hookPoints True (defaultOptions 3) = (hookBuilt, 0)
   \<and> flexure (annotateJointMode planarLib (defaultOptions 3) (last hookBuilt)) = Cap"
proof -
  have o: "\<not> pointAlmostEqual planarLib (hookPoints ! 0) (hookPoints ! (length hookPoints - 1))"
    by (simp add: hookPoints_def planarLib_sel sameCoordinate_def smallMetricDistance_def)
  have r: "constructPolygonWireXYOffset planarLib hookPoints False (defaultOptions 3)
       = Inr (Some (Path [(0, 3, 0), (6, 3, 0), (6, 3, 0), (6, 11, 0)]))"
  proof -
    have n: "\<not> length hookPoints < 2" by (simp add: hookPoints_def)
    show ?thesis
      by (simp add: constructPolygonWireXYOffset_def hook_strokes n planarLib_sel
            sameCoordinate_def smallMetricDistance_def)
  qed
  have c0: "curve0 (last hookBuilt) \<noteq> None"
    by (simp add: hookBuilt_def mkJoint_sel)
  note th = wrap_needs_closed_input [OF o, of "defaultOptions 3"]
  have b: "buildChain planarLib hookPoints True (defaultOptions 3) = (hookBuilt, 0)"
    using th hook_build by simp
  have c: "constructPolygonWireXYOffset planarLib hookPoints True (defaultOptions 3)
       = Inr (Some (Path [(0, 3, 0), (6, 3, 0), (6, 3, 0), (6, 11, 0)]))"
    using th r by simp
  have cap: "flexure (annotateJointMode planarLib (defaultOptions 3) (last hookBuilt)) = Cap"
    using th c0 unfolding b by simp
  show ?thesis using o b c cap by simp
qed

text \<open>
  The polyline \<open>(0,0), (1,0), (1,0)\<close> with \<open>wrap\<close> true: its end points differ, its last edge
  has no direction, and the trailing joint has no fragment on either side. Neither its own
  annotation nor the annotation of the chain marks it as a Cap: it stays unmarked.
\<close>

theorem wrap_trailing_joint_counterexample:
  "\<not> pointAlmostEqual planarLib (stubPoints ! 0) (stubPoints ! (length stubPoints - 1))
   \<and> buildChain planarLib stubPoints True (defaultOptions 3) = (stubBuilt, 0)
   \<and> curve0 (last stubBuilt) = None
   \<and> flexure (annotateJointMode planarLib (defaultOptions 3) (last stubBuilt)) = Unknown
   \<and> flexure (last (annotateChain planarLib 0 (defaultOptions 3) (length stubPoints) stubBuilt)) = Unknown"
proof -
  have o: "\<not> pointAlmostEqual planarLib (stubPoints ! 0) (stubPoints ! (length stubPoints - 1))"
    by (simp add: stubPoints_def planarLib_sel sameCoordinate_def smallMetricDistance_def)
  have n: "length stubPoints = 3" by (simp add: stubPoints_def)
  have b: "buildChain planarLib stubPoints True (defaultOptions 3) = (stubBuilt, 0)"
    by (rule stub_build)
  have l: "last stubBuilt = mkJoint Unknown None None None None None (Some (1, 0, 0)) None (Some 1)"
    by (simp add: stubBuilt_def)
  have a: "flexure (annotateJointMode planarLib (defaultOptions 3) (last stubBuilt)) = Unknown"
    unfolding l by (simp add: annotate_none mkJoint_sel)
  have c: "flexure (last (annotateChain planarLib 0 (defaultOptions 3) (length stubPoints) stubBuilt)) = Unknown"
    unfolding n stub_annotated by (simp add: mkJoint_sel)
  show ?thesis using o b a c by (simp add: l mkJoint_sel)
qed

subsection \<open>Offset by zero\<close>




end
